theory Spec2Isabelle
  imports Main "HOL-Library.Log_Nat" "HOL-Library.AList"
begin

section \<open>Python values\<close>

text \<open>
  The exceptions the modelled functions can raise. A raise is the value \<open>Inl e\<close> of a
  result type \<open>py_error + 'a\<close>. \<open>ExternalFailure\<close> is whatever the call to the hosted model
  raises (base64 decoding of a PDF, the request, decoding the response text); its flag
  says whether that exception is a \<open>ValueError\<close>. Constructing the client, which only
  stores the API key, is taken to succeed.
\<close>

datatype py_error =
    JSONDecodeError
  | AttributeError
  | TypeError
  | OverflowError
  | ExternalFailure bool

text \<open>\<open>json.JSONDecodeError\<close> is a subclass of \<open>ValueError\<close>; the other three are not.\<close>

fun is_value_error :: "py_error \<Rightarrow> bool" where
  "is_value_error JSONDecodeError = True"
| "is_value_error (ExternalFailure v) = v"
| "is_value_error _ = False"

text \<open>
  Python numbers as JSON carries them: an unbounded \<open>int\<close>, or a finite \<open>float\<close> (an IEEE 754
  binary64 value), held as the rational it denotes.
\<close>

datatype pynum = PInt int | PFloat rat

fun num_val :: "pynum \<Rightarrow> rat" where
  "num_val (PInt i) = of_int i"
| "num_val (PFloat x) = x"

text \<open>What \<open>json.loads\<close> produces; an object keeps its keys in insertion order.\<close>

datatype json =
    JNull
  | JBool bool
  | JNum pynum
  | JStr string
  | JArr "json list"
  | JObj "(string \<times> json) list"

subsection \<open>Binary64 arithmetic\<close>

definition pow2 :: "int \<Rightarrow> rat" where
  "pow2 e = (if 0 \<le> e then 2 ^ nat e else 1 / 2 ^ nat (- e))"

definition round_half_even :: "rat \<Rightarrow> int" where
  "round_half_even x =
     (let f = \<lfloor>x\<rfloor>; d = x - of_int f
      in if d < 1 / 2 then f else if 1 / 2 < d then f + 1 else if even f then f else f + 1)"

text \<open>\<open>ilog2 x\<close> is the exponent \<open>e\<close> with \<open>2^e \<le> x < 2^(e+1)\<close>, for \<open>x > 0\<close>.\<close>

definition ilog2 :: "rat \<Rightarrow> int" where
  "ilog2 x = (case quotient_of x of (p, q) \<Rightarrow>
     (let e0 = bitlen p - bitlen q in if pow2 e0 \<le> x then e0 else e0 - 1))"

text \<open>
  Rounding a real result to the nearest binary64 value, ties to even: 53 significant bits,
  and the fixed quantum \<open>2^-1074\<close> in the subnormal range. The result is only a double
  when the argument does not overflow (\<open>overflows\<close>).
\<close>

definition round_double :: "rat \<Rightarrow> rat" where
  "round_double x =
     (if x = 0 then 0
      else let a = \<bar>x\<bar>; q = max (ilog2 a - 52) (- 1074)
           in sgn x * (of_int (round_half_even (a / pow2 q)) * pow2 q))"

text \<open>
  A result overflows when its rounding, taken with an unbounded exponent, lies above the
  largest double \<open>(2^53 - 1) * 2^971\<close>: the exponent is above 1023, or it is 1023 and the
  significand rounds up to \<open>2^53\<close>.
\<close>

definition overflows :: "rat \<Rightarrow> bool" where
  "overflows x =
     (x \<noteq> 0 \<and>
      (let a = \<bar>x\<bar>; e = ilog2 a
       in 1023 < e \<or> (e = 1023 \<and> round_half_even (a / pow2 (e - 52)) = 2 ^ 53)))"

text \<open>
  \<open>a / b\<close> on Python ints: the correctly rounded quotient. The two call sites in the
  Scorer guard the divisor with \<open>if total > 0\<close>, and the model keeps that guard there.
  Python raises \<open>OverflowError\<close> when the quotient overflows; the Scorer divides a count
  by a count that is not smaller, which never does (\<open>quotient_in_range\<close>,
  \<open>topic_entry_in_range\<close> and \<open>overall_in_range\<close> below).
\<close>

definition py_truediv :: "nat \<Rightarrow> nat \<Rightarrow> rat" where
  "py_truediv a b = round_double (of_nat a / of_nat b)"

text \<open>The float literal \<open>0.7\<close>: the double nearest to 7/10.\<close>

definition lit_0_7 :: rat where
  "lit_0_7 = round_double (7 / 10)"

section \<open>Data model\<close>

text \<open>
  A question as the generation schema of \<open>generate_quiz\<close> shapes it: \<open>id\<close>, \<open>question\<close>,
  \<open>options\<close> and \<open>correct_answer\<close> are required strings (an object of strings for
  \<open>options\<close>), \<open>topic\<close> is optional. A key the code reads with \<open>.get\<close> is an optional
  field; \<open>q["id"]\<close> and \<open>q["question"]\<close> are read by index. \<open>correct\<close> is the internal key
  that normalisation writes.
\<close>

record question =
  q_id :: string
  q_topic :: "string option"
  q_question :: string
  q_options :: "(string \<times> string) list option"
  q_correct_answer :: "string option"
  q_correct :: "string option"

record topic_assessment =
  ta_topic :: string
  ta_score :: pynum
  ta_status :: string
  ta_questions_correct :: nat
  ta_questions_total :: nat

record assessment =
  a_session_id :: string
  a_title :: string
  a_topics_assessed :: "topic_assessment list"
  a_overall_knowledge :: pynum
  a_focus_areas :: "string list"
  a_skip_areas :: "string list"

text \<open>
  A stored quiz: the decoded generation result plus the two keys the Scorer adds,
  \<open>_scored\<close> and \<open>_score_result\<close>.
\<close>

record quiz =
  title :: "string option"
  topics :: "string list option"
  questions :: "question list option"
  scored :: bool
  score_result :: "assessment option"

text \<open>
  \<open>quiz_store\<close> is a module-level dict (its module, \<open>tools/state.py\<close>, only holds the
  dict). It is the state the tools share: an association list in insertion order, read
  with \<open>map_of\<close> and written with \<open>AList.update\<close>.
\<close>

type_synonym quiz_store = "(string \<times> quiz) list"

section \<open>The Scorer: \<open>score_quiz\<close>\<close>

text \<open>
  The \<open>answers\<close> argument after line 27, \<open>json.loads(answers) if isinstance(answers, str)
  else answers\<close>: \<open>Undecodable\<close> is a string that \<open>json.loads\<close> rejects, \<open>Decoded v\<close> a string
  that decodes to \<open>v\<close> (or the object \<open>v\<close> passed as it is).
\<close>

datatype answers_arg = Undecodable | Decoded json

text \<open>The two documents \<open>score_quiz\<close> returns.\<close>

datatype score_output =
    SessionNotFound string "string list"
  | Assessed assessment

record tally =
  tally_correct :: nat
  tally_total :: nat

definition topic_of :: "question \<Rightarrow> string" where
  "topic_of q = (case q_topic q of None \<Rightarrow> ''General'' | Some t \<Rightarrow> t)"

text \<open>\<open>q.get("correct")\<close>: \<open>None\<close> when the key is absent.\<close>

definition correct_value :: "question \<Rightarrow> json" where
  "correct_value q = (case q_correct q of None \<Rightarrow> JNull | Some c \<Rightarrow> JStr c)"

text \<open>
  \<open>user_answers.get(k)\<close>: only a dict has \<open>get\<close>; a missing key gives \<open>None\<close>.
\<close>

definition answers_get :: "json \<Rightarrow> string \<Rightarrow> py_error + json" where
  "answers_get user_answers k =
     (case user_answers of
        JObj d \<Rightarrow> Inr (case map_of d k of None \<Rightarrow> JNull | Some v \<Rightarrow> v)
      | _ \<Rightarrow> Inl AttributeError)"

text \<open>
  One iteration of the first loop (lines 30 to 36): \<open>seen_topic\<close> is lines 32 and 33,
  \<open>bump_total\<close> and \<open>bump_correct\<close> are the two \<open>+= 1\<close>. The comparison
  \<open>user_answers.get(q["id"]) == q.get("correct")\<close> has \<open>None\<close> or a string on its right,
  so Python's \<open>==\<close> is equality of the values.
\<close>

definition seen_topic :: "(string \<times> tally) list \<Rightarrow> string \<Rightarrow> (string \<times> tally) list" where
  "seen_topic topics_scores topic =
     (if topic \<in> fst ` set topics_scores then topics_scores
      else topics_scores @ [(topic, \<lparr>tally_correct = 0, tally_total = 0\<rparr>)])"

definition bump_total :: "tally \<Rightarrow> tally" where
  "bump_total s = s\<lparr>tally_total := tally_total s + 1\<rparr>"

definition bump_correct :: "tally \<Rightarrow> tally" where
  "bump_correct s = s\<lparr>tally_correct := tally_correct s + 1\<rparr>"

definition tally_step :: "json \<Rightarrow> (string \<times> tally) list \<Rightarrow> question \<Rightarrow> py_error + (string \<times> tally) list" where
  "tally_step user_answers topics_scores q =
     (let topic = topic_of q;
          ts1 = seen_topic topics_scores topic;
          ts2 = AList.map_entry topic bump_total ts1
      in case answers_get user_answers (q_id q) of
           Inl e \<Rightarrow> Inl e
         | Inr v \<Rightarrow>
             Inr (if v = correct_value q then AList.map_entry topic bump_correct ts2 else ts2))"

fun tally_loop :: "json \<Rightarrow> (string \<times> tally) list \<Rightarrow> question list \<Rightarrow> py_error + (string \<times> tally) list" where
  "tally_loop user_answers topics_scores [] = Inr topics_scores"
| "tally_loop user_answers topics_scores (q # qs) =
     (case tally_step user_answers topics_scores q of
        Inl e \<Rightarrow> Inl e
      | Inr ts \<Rightarrow> tally_loop user_answers ts qs)"

definition topic_score :: "tally \<Rightarrow> pynum" where
  "topic_score scores =
     (if tally_total scores > 0 then PFloat (py_truediv (tally_correct scores) (tally_total scores))
      else PInt 0)"

definition topic_status :: "pynum \<Rightarrow> string" where
  "topic_status score = (if lit_0_7 \<le> num_val score then ''proficient'' else ''needs_review'')"

text \<open>
  The second loop (lines 42 to 55), over \<open>topics_scores.items()\<close>, with its three
  accumulators \<open>topics_assessed\<close>, \<open>focus_areas\<close> and \<open>skip_areas\<close>; \<open>topic_entry\<close> is the
  dict it appends.
\<close>

definition topic_entry :: "string \<Rightarrow> tally \<Rightarrow> topic_assessment" where
  "topic_entry topic scores =
     \<lparr>ta_topic = topic, ta_score = topic_score scores,
      ta_status = topic_status (topic_score scores),
      ta_questions_correct = tally_correct scores,
      ta_questions_total = tally_total scores\<rparr>"

fun assess_loop ::
  "(string \<times> tally) list \<Rightarrow> topic_assessment list \<times> string list \<times> string list
     \<Rightarrow> topic_assessment list \<times> string list \<times> string list" where
  "assess_loop [] acc = acc"
| "assess_loop ((topic, scores) # rest) (topics_assessed, focus_areas, skip_areas) =
     (if lit_0_7 \<le> num_val (topic_score scores)
      then assess_loop rest
             (topics_assessed @ [topic_entry topic scores], focus_areas, skip_areas @ [topic])
      else assess_loop rest
             (topics_assessed @ [topic_entry topic scores], focus_areas @ [topic], skip_areas))"

definition overall_of :: "topic_assessment list \<Rightarrow> pynum" where
  "overall_of topics_assessed =
     (let total_correct = sum_list (map ta_questions_correct topics_assessed);
          total_questions = sum_list (map ta_questions_total topics_assessed)
      in if total_questions > 0 then PFloat (py_truediv total_correct total_questions)
         else PInt 0)"

text \<open>The questions of a stored quiz, \<open>quiz.get("questions", [])\<close>.\<close>

definition questions_of :: "quiz \<Rightarrow> question list" where
  "questions_of quiz = (case questions quiz of None \<Rightarrow> [] | Some qs \<Rightarrow> qs)"

text \<open>Lines 27 to 59 and the dict of lines 64 to 71: the assessment of an unscored quiz.\<close>

definition compute_assessment :: "string \<Rightarrow> quiz \<Rightarrow> answers_arg \<Rightarrow> py_error + assessment" where
  "compute_assessment session_id quiz answers =
     (case answers of
        Undecodable \<Rightarrow> Inl JSONDecodeError
      | Decoded user_answers \<Rightarrow>
          (case tally_loop user_answers [] (questions_of quiz) of
             Inl e \<Rightarrow> Inl e
           | Inr topics_scores \<Rightarrow>
               (case assess_loop topics_scores ([], [], []) of
                  (topics_assessed, focus_areas, skip_areas) \<Rightarrow>
                    Inr \<lparr>a_session_id = session_id,
                         a_title = (case title quiz of None \<Rightarrow> ''Quiz'' | Some t \<Rightarrow> t),
                         a_topics_assessed = topics_assessed,
                         a_overall_knowledge = overall_of topics_assessed,
                         a_focus_areas = focus_areas,
                         a_skip_areas = skip_areas\<rparr>)))"

text \<open>
  \<open>score_quiz\<close> returns its document (or raises) and leaves the store as the second
  component. The cache test of line 23 asks for \<open>_scored\<close> and for a truthy
  \<open>_score_result\<close>; a stored assessment is a dict of six keys, hence truthy. The store is
  written in one place, lines 63 and 64, after everything that can raise.
\<close>

definition score_quiz :: "quiz_store \<Rightarrow> string \<Rightarrow> answers_arg \<Rightarrow> (py_error + score_output) \<times> quiz_store" where
  "score_quiz quiz_store session_id answers =
     (case map_of quiz_store session_id of
        None \<Rightarrow>
          (Inr (SessionNotFound (''Quiz session '' @ session_id @ '' not found'') (map fst quiz_store)),
           quiz_store)
      | Some quiz \<Rightarrow>
          (case (if scored quiz then score_result quiz else None) of
             Some cached \<Rightarrow> (Inr (Assessed cached), quiz_store)
           | None \<Rightarrow>
               (case compute_assessment session_id quiz answers of
                  Inl e \<Rightarrow> (Inl e, quiz_store)
                | Inr a \<Rightarrow>
                    (Inr (Assessed a),
                     AList.update session_id (quiz\<lparr>scored := True, score_result := Some a\<rparr>) quiz_store))))"

section \<open>The Quiz Generator: \<open>generate_quiz\<close>\<close>

text \<open>
  \<open>json.loads(response.text)\<close>, the decoded reply of the hosted model under the response
  schema: \<open>title\<close>, \<open>topics\<close> and \<open>questions\<close>, each read with \<open>.get\<close>.
\<close>

record generation_result =
  g_title :: "string option"
  g_topics :: "string list option"
  g_questions :: "question list option"

text \<open>Lines 82 to 84: \<open>if "correct_answer" in q: q["correct"] = q.pop("correct_answer")\<close>.\<close>

definition normalize_question :: "question \<Rightarrow> question" where
  "normalize_question q =
     (case q_correct_answer q of
        None \<Rightarrow> q
      | Some a \<Rightarrow> q\<lparr>q_correct_answer := None, q_correct := Some a\<rparr>)"

text \<open>Line 90: \<open>{k: v for k, v in q.items() if k != "correct"}\<close>.\<close>

definition strip_correct :: "question \<Rightarrow> question" where
  "strip_correct q = q\<lparr>q_correct := None\<rparr>"

text \<open>The document \<open>generate_quiz\<close> returns.\<close>

record quiz_view =
  v_session_id :: string
  v_title :: string
  v_topics :: "string list"
  v_questions :: "question list"

text \<open>
  \<open>session_id\<close> is the value of \<open>str(uuid.uuid4())\<close>; \<open>response\<close> is the outcome of the
  external call and of decoding its text. The stored quiz has neither \<open>_scored\<close> nor
  \<open>_score_result\<close>.
\<close>

definition generate_quiz ::
  "quiz_store \<Rightarrow> string \<Rightarrow> py_error + generation_result \<Rightarrow> (py_error + quiz_view) \<times> quiz_store" where
  "generate_quiz quiz_store session_id response =
     (case response of
        Inl e \<Rightarrow> (Inl e, quiz_store)
      | Inr result \<Rightarrow>
          (let stored = \<lparr>title = g_title result, topics = g_topics result,
                         questions = map_option (map normalize_question) (g_questions result),
                         scored = False, score_result = None\<rparr>;
               qs = map strip_correct (questions_of stored)
           in (Inr \<lparr>v_session_id = session_id,
                    v_title = (case title stored of None \<Rightarrow> ''Quiz'' | Some t \<Rightarrow> t),
                    v_topics = (case topics stored of None \<Rightarrow> [] | Some ts \<Rightarrow> ts),
                    v_questions = qs\<rparr>,
               AList.update session_id stored quiz_store)))"

section \<open>The Organizer: \<open>organize_content\<close>\<close>

text \<open>
  The \<open>assessment_json\<close> argument: the empty string, a string \<open>json.loads\<close> rejects, or a
  string that decodes to a JSON object, of which the model keeps what
  \<open>assessment.get("overall_knowledge", 0)\<close> reads: nothing, or a number.
  \<open>focus_areas\<close> and \<open>skip_areas\<close> go into the prompt text only; they are taken to be
  lists of strings, as the Scorer writes them, so that joining them does not raise.
\<close>

datatype assessment_json =
    NoAssessment
  | UndecodableAssessment
  | DecodedAssessment "pynum option"

text \<open>
  \<open>assessment.get("overall_knowledge", 0)\<close>, where \<open>assessment\<close> is the decoded object, or
  \<open>{}\<close> for the empty string.
\<close>

fun overall_knowledge_of :: "assessment_json \<Rightarrow> pynum" where
  "overall_knowledge_of (DecodedAssessment (Some n)) = n"
| "overall_knowledge_of _ = PInt 0"

text \<open>\<open>int(x)\<close> on a float truncates towards zero.\<close>

definition py_int :: "rat \<Rightarrow> int" where
  "py_int x = (if 0 \<le> x then \<lfloor>x\<rfloor> else \<lceil>x\<rceil>)"

text \<open>
  Line 24, \<open>int(overall_knowledge * 100)\<close>: exact on an int; on a float the product is
  rounded to a double first, and \<open>int\<close> of an infinite product raises.
\<close>

definition progress_of :: "pynum \<Rightarrow> py_error + int" where
  "progress_of overall_knowledge =
     (case overall_knowledge of
        PInt i \<Rightarrow> Inr (i * 100)
      | PFloat x \<Rightarrow>
          (if overflows (x * 100) then Inl OverflowError
           else Inr (py_int (round_double (x * 100)))))"

definition progress_status :: "int \<Rightarrow> string" where
  "progress_status progress =
     (if 100 \<le> progress then ''completed''
      else if 0 < progress then ''in_progress''
      else ''not_started'')"

text \<open>Lines 73 and 74, the two item assignments on \<open>content_node\<close>.\<close>

definition set_progress :: "(string \<times> json) list \<Rightarrow> int \<Rightarrow> (string \<times> json) list" where
  "set_progress content_node progress =
     AList.update ''status'' (JStr (progress_status progress))
       (AList.update ''progressPercent'' (JNum (PInt progress)) content_node)"

text \<open>
  Lines 67 to 74 on the decoded reply \<open>result\<close>. Only a dict passes: on a list, a string
  or a scalar either \<open>"content_node" in result\<close>, the index \<open>result["content_node"]\<close> or
  the item assignment raises \<open>TypeError\<close>.
\<close>

definition override_progress :: "json \<Rightarrow> int \<Rightarrow> py_error + json" where
  "override_progress result progress =
     (case result of
        JObj d \<Rightarrow>
          (case map_of d ''content_node'' of
             None \<Rightarrow> Inr (JObj (set_progress d progress))
           | Some (JObj content_node) \<Rightarrow>
               Inr (JObj (AList.update ''content_node'' (JObj (set_progress content_node progress)) d))
           | Some _ \<Rightarrow> Inl TypeError)
      | _ \<Rightarrow> Inl TypeError)"

text \<open>
  \<open>response\<close> is the outcome of the external call and of decoding its text. The content,
  its type, the URL and the existing subjects only shape the prompt.
\<close>

definition organize_content :: "assessment_json \<Rightarrow> py_error + json \<Rightarrow> py_error + json" where
  "organize_content assessment_json response =
     (case assessment_json of
        UndecodableAssessment \<Rightarrow> Inl JSONDecodeError
      | _ \<Rightarrow>
          (case progress_of (overall_knowledge_of assessment_json) of
             Inl e \<Rightarrow> Inl e
           | Inr progress \<Rightarrow>
               (case response of
                  Inl e \<Rightarrow> Inl e
                | Inr result \<Rightarrow> override_progress result progress)))"

text \<open>The dict in which the override lands: the nested \<open>content_node\<close>, else the reply itself.\<close>

definition content_node_of :: "json \<Rightarrow> (string \<times> json) list" where
  "content_node_of result =
     (case result of
        JObj d \<Rightarrow> (case map_of d ''content_node'' of Some (JObj content_node) \<Rightarrow> content_node | _ \<Rightarrow> d)
      | _ \<Rightarrow> [])"

section \<open>The HTTP boundary\<close>

record quiz_question =
  qq_id :: string
  qq_topic :: string
  qq_question :: string
  qq_options :: "(string \<times> string) list"

record quiz_response =
  qr_session_id :: string
  qr_status :: string
  qr_content_title :: string
  qr_topics :: "string list"
  qr_questions :: "quiz_question list"

text \<open>The dict \<open>run_assess\<close> returns, every key of it read with \<open>.get\<close>.\<close>

record assess_result =
  r_session_id :: "string option"
  r_title :: "string option"
  r_topics :: "string list option"
  r_questions :: "question list option"

text \<open>\<open>json.loads\<close> of the document \<open>generate_quiz\<close> returns (the fallback of \<open>run_assess\<close>).\<close>

definition decode_view :: "quiz_view \<Rightarrow> assess_result" where
  "decode_view v =
     \<lparr>r_session_id = Some (v_session_id v), r_title = Some (v_title v),
      r_topics = Some (v_topics v), r_questions = Some (v_questions v)\<rparr>"

definition to_quiz_question :: "question \<Rightarrow> quiz_question" where
  "to_quiz_question q =
     \<lparr>qq_id = q_id q,
      qq_topic = (case q_topic q of None \<Rightarrow> ''General'' | Some t \<Rightarrow> t),
      qq_question = q_question q,
      qq_options = (case q_options q of None \<Rightarrow> [] | Some os \<Rightarrow> os)\<rparr>"

text \<open>
  \<open>POST /assess\<close>. A result is the response model, or \<open>Inl status\<close> for the
  \<open>HTTPException\<close> that leaves the handler. \<open>outcome\<close> is what \<open>run_assess\<close> returned or
  raised.
\<close>

definition assess_content :: "bool \<Rightarrow> py_error + assess_result \<Rightarrow> nat + quiz_response" where
  "assess_content is_configured outcome =
     (if \<not> is_configured then Inl 503
      else (case outcome of
              Inl e \<Rightarrow> Inl 500
            | Inr result \<Rightarrow>
                Inr \<lparr>qr_session_id = (case r_session_id result of None \<Rightarrow> '''' | Some s \<Rightarrow> s),
                     qr_status = ''awaiting_answers'',
                     qr_content_title = (case r_title result of None \<Rightarrow> ''Untitled'' | Some t \<Rightarrow> t),
                     qr_topics = (case r_topics result of None \<Rightarrow> [] | Some ts \<Rightarrow> ts),
                     qr_questions =
                       map to_quiz_question (case r_questions result of None \<Rightarrow> [] | Some qs \<Rightarrow> qs)\<rparr>))"

text \<open>
  The dict \<open>run_triage\<close> returns: \<open>assessment\<close> (absent, or one of the Scorer's two
  documents) and \<open>organization\<close>.
\<close>

record triage_result =
  tr_assessment :: "score_output option"
  tr_organization :: "json option"

text \<open>
  The fallback of \<open>run_triage\<close> (lines 84 to 87 of \<open>triage_pipeline.py\<close>): the two tools
  called directly, the Organizer on \<open>json.dumps(score_result)\<close>. \<open>answers\<close> is the request's
  \<open>dict[str, str]\<close>.
\<close>

definition run_triage_fallback ::
  "quiz_store \<Rightarrow> string \<Rightarrow> (string \<times> string) list \<Rightarrow> py_error + json
     \<Rightarrow> (py_error + triage_result) \<times> quiz_store" where
  "run_triage_fallback quiz_store quiz_session_id answers response =
     (case score_quiz quiz_store quiz_session_id (Decoded (JObj (map (\<lambda>(k, v). (k, JStr v)) answers))) of
        (Inl e, store) \<Rightarrow> (Inl e, store)
      | (Inr score_doc, store) \<Rightarrow>
          (case organize_content
                  (DecodedAssessment
                     (case score_doc of
                        Assessed a \<Rightarrow> Some (a_overall_knowledge a)
                      | SessionNotFound _ _ \<Rightarrow> None))
                  response of
             Inl e \<Rightarrow> (Inl e, store)
           | Inr org_result \<Rightarrow>
               (Inr \<lparr>tr_assessment = Some score_doc, tr_organization = Some org_result\<rparr>, store)))"

text \<open>
  What is in flight inside the \<open>try\<close> block of a handler: a Python exception of the tools,
  or an \<open>HTTPException\<close> with its status code. \<open>HTTPException\<close> derives from \<open>Exception\<close>
  and not from \<open>ValueError\<close>.
\<close>

datatype exn = PyError py_error | HTTPException nat

text \<open>
  The two \<open>except\<close> clauses of \<open>submit_assessment_answers\<close> (lines 247 to 251):
  \<open>except ValueError\<close> raises 404, \<open>except Exception\<close> raises 500.
\<close>

fun except_clauses :: "exn \<Rightarrow> nat" where
  "except_clauses (PyError e) = (if is_value_error e then 404 else 500)"
| "except_clauses (HTTPException status) = 500"

text \<open>\<open>"error" in assessment_data\<close>, with \<open>assessment_data = result.get("assessment", {})\<close>.\<close>

fun has_error :: "score_output option \<Rightarrow> bool" where
  "has_error (Some (SessionNotFound _ _)) = True"
| "has_error _ = False"

text \<open>
  \<open>POST /assess/answers\<close>. \<open>triage\<close> is what \<open>run_triage\<close> returned or raised; \<open>build\<close> is
  the outcome of lines 186 to 245, which shape the two documents into the response
  models. The check of line 179 and its \<open>raise HTTPException(status_code=400)\<close> stand
  inside the \<open>try\<close> block.
\<close>

definition submit_assessment_answers ::
  "bool \<Rightarrow> py_error + triage_result \<Rightarrow> (triage_result \<Rightarrow> py_error + 'r) \<Rightarrow> nat + 'r" where
  "submit_assessment_answers is_configured triage build =
     (if \<not> is_configured then Inl 503
      else
        (case (case triage of
                 Inl e \<Rightarrow> Inl (PyError e)
               | Inr result \<Rightarrow>
                   (if has_error (tr_assessment result) then Inl (HTTPException 400)
                    else (case build result of Inl e \<Rightarrow> Inl (PyError e) | Inr r \<Rightarrow> Inr r)))
         of
           Inl e \<Rightarrow> Inl (except_clauses e)
         | Inr r \<Rightarrow> Inr r))"

section \<open>Notions the properties are stated with\<close>

text \<open>The distinct elements of a list, in the order of their first occurrence.\<close>

fun first_seen :: "'a list \<Rightarrow> 'a list" where
  "first_seen [] = []"
| "first_seen (x # xs) = x # filter (\<lambda>y. y \<noteq> x) (first_seen xs)"

text \<open>A question is answered correctly: the comparison of line 35 holds.\<close>

definition answered_correctly :: "json \<Rightarrow> question \<Rightarrow> bool" where
  "answered_correctly user_answers q = (answers_get user_answers (q_id q) = Inr (correct_value q))"

text \<open>The counts of \<open>topics_scores\<close> added up over its topics.\<close>

definition sum_total :: "(string \<times> tally) list \<Rightarrow> nat" where
  "sum_total ts = sum_list (map (\<lambda>p. tally_total (snd p)) ts)"

definition sum_correct :: "(string \<times> tally) list \<Rightarrow> nat" where
  "sum_correct ts = sum_list (map (\<lambda>p. tally_correct (snd p)) ts)"

text \<open>No stored quiz has \<open>_scored\<close> set without \<open>_score_result\<close>.\<close>

definition store_consistent :: "quiz_store \<Rightarrow> bool" where
  "store_consistent quiz_store = list_all (\<lambda>(sid, quiz). \<not> scored quiz \<or> score_result quiz \<noteq> None) quiz_store"

text \<open>A sequence of scoring attempts, each on the store the one before left.\<close>

fun score_attempts :: "quiz_store \<Rightarrow> (string \<times> answers_arg) list \<Rightarrow> quiz_store" where
  "score_attempts quiz_store [] = quiz_store"
| "score_attempts quiz_store ((session_id, answers) # rest) =
     score_attempts (snd (score_quiz quiz_store session_id answers)) rest"

text \<open>The two counts of one topic in \<open>topics_scores\<close>, 0 for a topic it does not hold.\<close>

definition total_at :: "(string \<times> tally) list \<Rightarrow> string \<Rightarrow> nat" where
  "total_at ts k = (case map_of ts k of None \<Rightarrow> 0 | Some s \<Rightarrow> tally_total s)"

definition correct_at :: "(string \<times> tally) list \<Rightarrow> string \<Rightarrow> nat" where
  "correct_at ts k = (case map_of ts k of None \<Rightarrow> 0 | Some s \<Rightarrow> tally_correct s)"

text \<open>The test of line 52 on an item of \<open>topics_scores\<close>.\<close>

definition skips :: "string \<times> tally \<Rightarrow> bool" where
  "skips p = (lit_0_7 \<le> num_val (topic_score (snd p)))"

text \<open>The cache test of line 23 fails: the quiz is scored on this call.\<close>

definition unscored :: "quiz \<Rightarrow> bool" where
  "unscored quiz = ((if scored quiz then score_result quiz else None) = None)"

text \<open>The store holds a scored quiz with the cached assessment \<open>a\<close> under \<open>sid\<close>.\<close>

definition cached_at :: "quiz_store \<Rightarrow> string \<Rightarrow> assessment \<Rightarrow> bool" where
  "cached_at store sid a =
     (case map_of store sid of
        None \<Rightarrow> False
      | Some quiz \<Rightarrow> scored quiz \<and> score_result quiz = Some a)"

section \<open>Worked examples\<close>

text \<open>
  The scenario of the specification: three questions, two on topic A and one on topic B;
  both A questions are answered correctly, the B question is not.
\<close>

definition example_q1 :: question where
  "example_q1 =
     \<lparr>q_id = ''q1'', q_topic = Some ''A'', q_question = ''first'', q_options = None,
      q_correct_answer = None, q_correct = Some ''A''\<rparr>"

definition example_q2 :: question where
  "example_q2 =
     \<lparr>q_id = ''q2'', q_topic = Some ''B'', q_question = ''second'', q_options = None,
      q_correct_answer = None, q_correct = Some ''C''\<rparr>"

definition example_q3 :: question where
  "example_q3 =
     \<lparr>q_id = ''q3'', q_topic = Some ''A'', q_question = ''third'', q_options = None,
      q_correct_answer = None, q_correct = Some ''B''\<rparr>"

definition example_questions :: "question list" where
  "example_questions = [example_q1, example_q2, example_q3]"

definition example_quiz :: quiz where
  "example_quiz =
     \<lparr>title = Some ''Sets'', topics = Some [''A'', ''B''], questions = Some example_questions,
      scored = False, score_result = None\<rparr>"

definition example_answers :: json where
  "example_answers = JObj [(''q1'', JStr ''A''), (''q2'', JStr ''D''), (''q3'', JStr ''B'')]"

definition example_assessment :: assessment where
  "example_assessment =
     \<lparr>a_session_id = ''s1'', a_title = ''Sets'',
      a_topics_assessed =
        [\<lparr>ta_topic = ''A'', ta_score = PFloat 1, ta_status = ''proficient'',
          ta_questions_correct = 2, ta_questions_total = 2\<rparr>,
         \<lparr>ta_topic = ''B'', ta_score = PFloat 0, ta_status = ''needs_review'',
          ta_questions_correct = 0, ta_questions_total = 1\<rparr>],
      a_overall_knowledge = PFloat (6004799503160661 / 9007199254740992),
      a_focus_areas = [''B''], a_skip_areas = [''A'']\<rparr>"

definition example_scored :: quiz where
  "example_scored = example_quiz\<lparr>scored := True, score_result := Some example_assessment\<rparr>"

text \<open>Ten questions on one topic, seven of them answered correctly: the score is \<open>0.7\<close>.\<close>

definition boundary_question :: "string \<Rightarrow> question" where
  "boundary_question i =
     \<lparr>q_id = i, q_topic = Some ''T'', q_question = ''text'', q_options = None,
      q_correct_answer = None, q_correct = Some ''A''\<rparr>"

definition boundary_quiz :: quiz where
  "boundary_quiz =
     \<lparr>title = None, topics = None,
      questions = Some (map boundary_question
        [''k0'', ''k1'', ''k2'', ''k3'', ''k4'', ''k5'', ''k6'', ''k7'', ''k8'', ''k9'']),
      scored = False, score_result = None\<rparr>"

definition boundary_answers :: json where
  "boundary_answers =
     JObj [(''k0'', JStr ''A''), (''k1'', JStr ''A''), (''k2'', JStr ''A''), (''k3'', JStr ''A''),
           (''k4'', JStr ''A''), (''k5'', JStr ''A''), (''k6'', JStr ''A''), (''k7'', JStr ''B''),
           (''k8'', JNull)]"

definition boundary_entry :: topic_assessment where
  "boundary_entry =
     \<lparr>ta_topic = ''T'', ta_score = PFloat lit_0_7, ta_status = ''proficient'',
      ta_questions_correct = 7, ta_questions_total = 10\<rparr>"

definition boundary_assessment :: assessment where
  "boundary_assessment =
     \<lparr>a_session_id = ''s2'', a_title = ''Quiz'', a_topics_assessed = [boundary_entry],
      a_overall_knowledge = PFloat lit_0_7, a_focus_areas = [], a_skip_areas = [''T'']\<rparr>"

text \<open>
  Answers to the example quiz that name an unknown id, leave \<open>q2\<close> out and miss \<open>q3\<close>.
\<close>

definition partial_answers :: "(string \<times> json) list" where
  "partial_answers = [(''q1'', JStr ''A''), (''zz'', JStr ''B''), (''q3'', JStr ''C'')]"

definition partial_entry :: topic_assessment where
  "partial_entry =
     \<lparr>ta_topic = ''A'', ta_score = PFloat (1 / 2), ta_status = ''needs_review'',
      ta_questions_correct = 1, ta_questions_total = 2\<rparr>"

definition partial_assessment :: assessment where
  "partial_assessment =
     \<lparr>a_session_id = ''s1'', a_title = ''Sets'',
      a_topics_assessed =
        [partial_entry,
         \<lparr>ta_topic = ''B'', ta_score = PFloat 0, ta_status = ''needs_review'',
          ta_questions_correct = 0, ta_questions_total = 1\<rparr>],
      a_overall_knowledge = PFloat (py_truediv 1 3),
      a_focus_areas = [''A'', ''B''], a_skip_areas = []\<rparr>"

definition example_attempts :: "(string \<times> answers_arg) list" where
  "example_attempts =
     [(''s1'', Undecodable), (''zz'', Decoded example_answers), (''s1'', Decoded (JArr [])),
      (''s1'', Decoded example_answers), (''s1'', Undecodable)]"

text \<open>The questions of a decoded generation reply, \<open>result.get("questions", [])\<close>.\<close>

definition raw_questions :: "generation_result \<Rightarrow> question list" where
  "raw_questions result = (case g_questions result of None \<Rightarrow> [] | Some qs \<Rightarrow> qs)"

text \<open>
  A reply of the hosted model with a nested \<open>content_node\<close> that proposes its own progress.
\<close>

definition example_reply :: "(string \<times> json) list" where
  "example_reply =
     [(''content_node'',
       JObj [(''title'', JStr ''Sets''), (''status'', JStr ''not_started''),
             (''progressPercent'', JNum (PInt 5))]),
      (''ai_suggestion'', JObj [(''title'', JStr ''Sets'')])]"

definition example_organized :: json where
  "example_organized =
     JObj [(''content_node'',
            JObj [(''title'', JStr ''Sets''), (''status'', JStr ''completed''),
                  (''progressPercent'', JNum (PInt 100))]),
           (''ai_suggestion'', JObj [(''title'', JStr ''Sets'')])]"

text \<open>
  A reply of the generation call: two questions with their answer keys, the second
  without a topic.
\<close>

definition raw_example :: generation_result where
  "raw_example =
     \<lparr>g_title = Some ''Sets'', g_topics = Some [''Unions''],
      g_questions = Some
        [\<lparr>q_id = ''g1'', q_topic = Some ''Unions'', q_question = ''first'',
          q_options = Some [(''A'', ''yes''), (''B'', ''no'')],
          q_correct_answer = Some ''B'', q_correct = None\<rparr>,
         \<lparr>q_id = ''g2'', q_topic = None, q_question = ''second'',
          q_options = Some [(''A'', ''yes''), (''B'', ''no'')],
          q_correct_answer = Some ''A'', q_correct = None\<rparr>]\<rparr>"

definition stored_example :: quiz where
  "stored_example =
     \<lparr>title = Some ''Sets'', topics = Some [''Unions''],
      questions = Some
        [\<lparr>q_id = ''g1'', q_topic = Some ''Unions'', q_question = ''first'',
          q_options = Some [(''A'', ''yes''), (''B'', ''no'')],
          q_correct_answer = None, q_correct = Some ''B''\<rparr>,
         \<lparr>q_id = ''g2'', q_topic = None, q_question = ''second'',
          q_options = Some [(''A'', ''yes''), (''B'', ''no'')],
          q_correct_answer = None, q_correct = Some ''A''\<rparr>],
      scored = False, score_result = None\<rparr>"

definition view_example :: quiz_view where
  "view_example =
     \<lparr>v_session_id = ''s3'', v_title = ''Sets'', v_topics = [''Unions''],
      v_questions =
        [\<lparr>q_id = ''g1'', q_topic = Some ''Unions'', q_question = ''first'',
          q_options = Some [(''A'', ''yes''), (''B'', ''no'')],
          q_correct_answer = None, q_correct = None\<rparr>,
         \<lparr>q_id = ''g2'', q_topic = None, q_question = ''second'',
          q_options = Some [(''A'', ''yes''), (''B'', ''no'')],
          q_correct_answer = None, q_correct = None\<rparr>]\<rparr>"

text \<open>The stored example scored with one right and one wrong answer.\<close>

definition general_assessment :: assessment where
  "general_assessment =
     \<lparr>a_session_id = ''s3'', a_title = ''Sets'',
      a_topics_assessed =
        [\<lparr>ta_topic = ''Unions'', ta_score = PFloat 1, ta_status = ''proficient'',
          ta_questions_correct = 1, ta_questions_total = 1\<rparr>,
         \<lparr>ta_topic = ''General'', ta_score = PFloat 0, ta_status = ''needs_review'',
          ta_questions_correct = 0, ta_questions_total = 1\<rparr>],
      a_overall_knowledge = PFloat (1 / 2),
      a_focus_areas = [''General''], a_skip_areas = [''Unions'']\<rparr>"

definition general_question :: question where
  "general_question =
     \<lparr>q_id = ''g2'', q_topic = None, q_question = ''second'',
      q_options = Some [(''A'', ''yes''), (''B'', ''no'')],
      q_correct_answer = None, q_correct = Some ''A''\<rparr>"

definition later_attempts :: "(string \<times> answers_arg) list" where
  "later_attempts =
     [(''s1'', Decoded (JObj [])), (''zz'', Undecodable), (''s1'', Decoded (JArr []))]"

section \<open>Properties of the binary64 model\<close>

text \<open>
  \<open>ilog2\<close> is the binary exponent of a positive rational, \<open>round_double\<close> returns a
  multiple of the quantum that is nearest to its argument, and the quotient of two counts
  \<open>a \<le> b\<close> does not overflow and rounds to a float between 0 and 1.
\<close>

lemma pow2_powi: "pow2 e = 2 powi e"
  by (simp add: pow2_def power_int_def inverse_eq_divide power_one_over)

lemma pow2_pos: "0 < pow2 e"
  by (simp add: pow2_powi)

lemma pow2_add: "pow2 (a + b) = pow2 a * pow2 b"
  by (simp add: pow2_powi power_int_add)

lemma pow2_diff: "pow2 (a - b) = pow2 a / pow2 b"
  by (simp add: pow2_powi power_int_diff)

lemma pow2_of_nat: "pow2 (int n) = 2 ^ n"
  by (simp add: pow2_def)

lemma bitlen_rat_bounds:
  assumes "0 < p"
  shows "pow2 (bitlen p - 1) \<le> of_int p" and "of_int p < pow2 (bitlen p)"
proof -
  from bitlen_bounds[OF assms] have l: "2 ^ nat (bitlen p - 1) \<le> p" and u: "p < 2 ^ nat (bitlen p)"
    by simp_all
  from assms have b: "1 \<le> bitlen p"
    by (simp add: bitlen_alt_def)
  have "pow2 (bitlen p - 1) = of_int (2 ^ nat (bitlen p - 1))"
    using b by (simp add: pow2_def)
  also have "\<dots> \<le> of_int p"
    using l by (simp only: of_int_le_iff)
  finally show "pow2 (bitlen p - 1) \<le> of_int p" .
  have "(of_int p :: rat) < of_int (2 ^ nat (bitlen p))"
    using u by (simp only: of_int_less_iff)
  also have "\<dots> = pow2 (bitlen p)"
    using b by (simp add: pow2_def)
  finally show "of_int p < pow2 (bitlen p)" .
qed

lemma ilog2_bounds:
  assumes "0 < x"
  shows "pow2 (ilog2 x) \<le> x \<and> x < pow2 (ilog2 x + 1)"
proof -
  obtain p q where pq: "quotient_of x = (p, q)"
    by (cases "quotient_of x")
  then have q: "0 < q" and x: "x = of_int p / of_int q"
    by (simp_all add: quotient_of_denom_pos quotient_of_div)
  from assms q x have p: "0 < p"
    by (simp add: zero_less_divide_iff)
  note bp = bitlen_rat_bounds[OF p] and bq = bitlen_rat_bounds[OF q]
  have qpos: "(0::rat) < of_int q" using q by simp
  have up: "x < pow2 (bitlen p - bitlen q + 1)"
  proof -
    have "x < pow2 (bitlen p) / of_int q"
      unfolding x using bp(2) qpos by (simp add: divide_strict_right_mono)
    also have "\<dots> \<le> pow2 (bitlen p) / pow2 (bitlen q - 1)"
      using bq(1) pow2_pos[of "bitlen p"] pow2_pos[of "bitlen q - 1"]
      by (simp add: frac_le)
    also have "\<dots> = pow2 (bitlen p - bitlen q + 1)"
      using pow2_diff[of "bitlen p" "bitlen q - 1"] by (simp add: algebra_simps)
    finally show ?thesis .
  qed
  have lo: "pow2 (bitlen p - bitlen q - 1) \<le> x"
  proof -
    have "pow2 (bitlen p - bitlen q - 1) = pow2 (bitlen p - 1) / pow2 (bitlen q)"
      using pow2_diff[of "bitlen p - 1" "bitlen q"] by (simp add: algebra_simps)
    also have "\<dots> \<le> of_int p / pow2 (bitlen q)"
      using bp(1) pow2_pos[of "bitlen q"] by (simp add: divide_right_mono)
    also have "\<dots> \<le> of_int p / of_int q"
      using bq(2) qpos p by (simp add: frac_le)
    finally show ?thesis by (simp add: x)
  qed
  show ?thesis
  proof (cases "pow2 (bitlen p - bitlen q) \<le> x")
    case True
    then have "ilog2 x = bitlen p - bitlen q"
      by (simp add: ilog2_def pq Let_def)
    with True up show ?thesis by simp
  next
    case False
    then have "ilog2 x = bitlen p - bitlen q - 1"
      by (simp add: ilog2_def pq Let_def)
    with False lo show ?thesis by simp
  qed
qed


lemma round_half_even_nearest: "\<bar>of_int (round_half_even x) - x\<bar> \<le> 1 / 2"
proof -
  define d where "d = x - of_int \<lfloor>x\<rfloor>"
  have d: "0 \<le> d" "d < 1"
    unfolding d_def by linarith+
  have x: "x = of_int \<lfloor>x\<rfloor> + d"
    by (simp add: d_def)
  have "\<bar>of_int (round_half_even x) - x\<bar> =
        (if d < 1 / 2 then d else if 1 / 2 < d then 1 - d else 1 / 2)"
  proof -
    have "of_int (round_half_even x) - x =
          (if d < 1 / 2 then - d else if 1 / 2 < d then 1 - d
           else if even \<lfloor>x\<rfloor> then - d else 1 - d)"
      by (simp add: round_half_even_def Let_def d_def)
    with d show ?thesis
      by (auto simp: abs_if)
  qed
  with d show ?thesis
    by auto
qed

text \<open>
  The rounded value is a multiple of the quantum \<open>2^q\<close> of its argument, and at most half
  a quantum away from it.
\<close>

lemma round_double_nearest:
  assumes "x \<noteq> 0"
  defines "q \<equiv> max (ilog2 \<bar>x\<bar> - 52) (- 1074)"
  shows "\<exists>m. round_double x = of_int m * pow2 q" and "\<bar>round_double x - x\<bar> \<le> pow2 q / 2"
proof -
  define m where "m = round_half_even (\<bar>x\<bar> / pow2 q)"
  define y where "y = of_int m * pow2 q"
  have r: "round_double x = sgn x * y"
    using assms by (simp add: round_double_def Let_def m_def y_def)
  have "round_double x = of_int (if 0 < x then m else - m) * pow2 q"
    using assms(1) by (simp add: r sgn_if y_def)
  then show "\<exists>m. round_double x = of_int m * pow2 q" ..
  have p: "0 < pow2 q" by (rule pow2_pos)
  have e: "y - \<bar>x\<bar> = (of_int m - \<bar>x\<bar> / pow2 q) * pow2 q"
    using p by (simp add: left_diff_distrib y_def)
  have "\<bar>round_double x - x\<bar> = \<bar>y - \<bar>x\<bar>\<bar>"
  proof (cases "0 < x")
    case True
    then show ?thesis by (simp add: r)
  next
    case False
    with assms(1) have n: "x < 0" by simp
    then have "round_double x - x = - (y - \<bar>x\<bar>)"
      by (simp add: r)
    then show ?thesis by (simp only: abs_minus_cancel)
  qed
  also have "\<dots> = \<bar>of_int m - \<bar>x\<bar> / pow2 q\<bar> * pow2 q"
    using p by (simp only: e abs_mult)
  also have "\<dots> \<le> 1 / 2 * pow2 q"
    using round_half_even_nearest[of "\<bar>x\<bar> / pow2 q"] p
    by (intro mult_right_mono) (simp_all add: m_def)
  finally show "\<bar>round_double x - x\<bar> \<le> pow2 q / 2" by simp
qed

lemma pow2_strict_mono: "a < b \<Longrightarrow> pow2 a < pow2 b"
  by (simp add: pow2_powi power_int_strict_increasing)

lemma ilog2_le_0:
  assumes "0 < x" and "x \<le> 1"
  shows "ilog2 x \<le> 0"
proof (rule ccontr)
  assume "\<not> ilog2 x \<le> 0"
  then have "0 < ilog2 x" by simp
  then have "pow2 0 < pow2 (ilog2 x)" by (rule pow2_strict_mono)
  moreover have "pow2 (ilog2 x) \<le> x" using ilog2_bounds[OF assms(1)] by simp
  ultimately show False using assms(2) by (simp add: pow2_def)
qed

text \<open>The divisions of the Scorer cannot overflow.\<close>

lemma quotient_in_range:
  assumes "a \<le> b" and "0 < b"
  shows "\<not> overflows (of_nat a / of_nat b)"
proof (cases "a = 0")
  case True
  then show ?thesis by (simp add: overflows_def)
next
  case False
  let ?x = "(of_nat a / of_nat b) :: rat"
  from False assms have "0 < ?x" and "?x \<le> 1"
    by simp_all
  then have "ilog2 \<bar>?x\<bar> \<le> 0"
    using ilog2_le_0[of ?x] by simp
  then show ?thesis
    by (simp add: overflows_def Let_def)
qed

lemma round_half_even_le: "x \<le> of_int n \<Longrightarrow> round_half_even x \<le> n"
proof -
  assume a: "x \<le> of_int n"
  then have f: "\<lfloor>x\<rfloor> \<le> n" by (simp add: floor_le_iff)
  show ?thesis
  proof (cases "x = of_int \<lfloor>x\<rfloor>")
    case True
    then have "x - of_int \<lfloor>x\<rfloor> = 0" by simp
    then have "round_half_even x = \<lfloor>x\<rfloor>"
      by (simp add: round_half_even_def Let_def)
    with f show ?thesis by simp
  next
    case False
    then have ne: "of_int \<lfloor>x\<rfloor> \<noteq> x" by (rule not_sym)
    have "of_int \<lfloor>x\<rfloor> < x"
      using of_int_floor_le[of x] ne by (rule le_neq_trans)
    with a have "(of_int \<lfloor>x\<rfloor> :: rat) < of_int n" by simp
    then have "\<lfloor>x\<rfloor> < n" by (simp only: of_int_less_iff)
    moreover have "round_half_even x \<le> \<lfloor>x\<rfloor> + 1"
      by (simp add: round_half_even_def Let_def)
    ultimately show ?thesis by simp
  qed
qed

lemma round_half_even_nonneg: "0 \<le> x \<Longrightarrow> 0 \<le> round_half_even x"
  by (simp add: round_half_even_def Let_def)

text \<open>A score is a float between 0 and 1.\<close>

lemma py_truediv_unit:
  assumes "a \<le> b" and "0 < b"
  shows "0 \<le> py_truediv a b \<and> py_truediv a b \<le> 1"
proof (cases "a = 0")
  case True
  then show ?thesis by (simp add: py_truediv_def round_double_def)
next
  case False
  define x :: rat where "x = of_nat a / of_nat b"
  define q where "q = max (ilog2 \<bar>x\<bar> - 52) (- 1074)"
  from False assms have x: "0 < x" "x \<le> 1"
    by (simp_all add: x_def)
  then have "ilog2 \<bar>x\<bar> \<le> 0"
    using ilog2_le_0[of x] by simp
  then have q: "q \<le> 0" by (simp add: q_def)
  have r: "py_truediv a b = of_int (round_half_even (x / pow2 q)) * pow2 q"
    using x by (simp add: py_truediv_def round_double_def Let_def x_def[symmetric] q_def)
  have p: "0 < pow2 q" by (rule pow2_pos)
  have n: "pow2 q * of_int (2 ^ nat (- q)) = 1"
    using q by (simp add: pow2_def)
  have "x / pow2 q \<le> 1 / pow2 q"
    using x p by (simp add: divide_right_mono)
  also have "1 / pow2 q = of_int (2 ^ nat (- q))"
    using n p by (simp add: field_simps)
  finally have "round_half_even (x / pow2 q) \<le> 2 ^ nat (- q)"
    by (rule round_half_even_le)
  then have "(of_int (round_half_even (x / pow2 q)) :: rat) \<le> of_int (2 ^ nat (- q))"
    by (simp only: of_int_le_iff)
  then have "of_int (round_half_even (x / pow2 q)) * pow2 q \<le> of_int (2 ^ nat (- q)) * pow2 q"
    using p by (simp only: mult_right_mono less_imp_le)
  then have u: "py_truediv a b \<le> 1"
    using n by (simp add: r mult.commute)
  have "0 \<le> round_half_even (x / pow2 q)"
    using x p by (intro round_half_even_nonneg) simp
  then have "0 \<le> py_truediv a b"
    using p by (simp add: r)
  with u show ?thesis by simp
qed

lemma guarded_quotient_in_range:
  fixes c n :: nat
  assumes "c \<le> n"
  shows "\<not> overflows (of_nat c / of_nat n)
       \<and> 0 \<le> num_val (if 0 < n then PFloat (py_truediv c n) else PInt 0)
       \<and> num_val (if 0 < n then PFloat (py_truediv c n) else PInt 0) \<le> 1"
proof (cases "0 < n")
  case True
  from quotient_in_range[OF assms True] py_truediv_unit[OF assms True] True show ?thesis
    by simp
next
  case False
  with assms show ?thesis
    by (simp add: overflows_def)
qed

section \<open>Properties of the Scorer\<close>

subsection \<open>The first loop: tallies per topic\<close>

lemma set_first_seen: "set (first_seen xs) = set xs"
  by (induction xs) auto

lemma distinct_first_seen: "distinct (first_seen xs)"
  by (induction xs) (auto simp: set_first_seen)

lemma first_seen_mem: "x \<in> set xs \<Longrightarrow> x \<in> set (first_seen xs)"
  by (simp add: set_first_seen)

lemma length_first_seen: "length (first_seen xs) = card (set xs)"
  using distinct_card[OF distinct_first_seen, of xs] by (simp add: set_first_seen)

lemma sum_total_Nil: "sum_total [] = 0"
  by (simp add: sum_total_def)

lemma sum_correct_Nil: "sum_correct [] = 0"
  by (simp add: sum_correct_def)

lemma correct_at_Nil: "correct_at [] k = 0"
  by (simp add: correct_at_def)

lemma total_at_Nil: "total_at [] k = 0"
  by (simp add: total_at_def)

lemma sum_total_bump_total:
  "k \<in> fst ` set ts \<Longrightarrow> sum_total (AList.map_entry k bump_total ts) = Suc (sum_total ts)"
  by (induction ts) (auto simp: sum_total_def bump_total_def)

lemma sum_total_bump_correct: "sum_total (AList.map_entry k bump_correct ts) = sum_total ts"
  by (induction ts) (auto simp: sum_total_def bump_correct_def)

lemma sum_correct_bump_correct:
  "k \<in> fst ` set ts \<Longrightarrow> sum_correct (AList.map_entry k bump_correct ts) = Suc (sum_correct ts)"
  by (induction ts) (auto simp: sum_correct_def bump_correct_def)

lemma sum_correct_bump_total: "sum_correct (AList.map_entry k bump_total ts) = sum_correct ts"
  by (induction ts) (auto simp: sum_correct_def bump_total_def)

lemma keys_map_entry: "map fst (AList.map_entry k f ts) = map fst ts"
  by (induction ts) auto

lemma seen_topic_mem: "t \<in> fst ` set (seen_topic ts t)"
  by (auto simp: seen_topic_def)

lemma seen_topic_keys:
  "map fst (seen_topic ts t) = (if t \<in> set (map fst ts) then map fst ts else map fst ts @ [t])"
  by (auto simp: seen_topic_def)

lemma sum_total_seen: "sum_total (seen_topic ts t) = sum_total ts"
  by (simp add: seen_topic_def sum_total_def)

lemma sum_correct_seen: "sum_correct (seen_topic ts t) = sum_correct ts"
  by (simp add: seen_topic_def sum_correct_def)

lemma tally_step_dict:
  "tally_step (JObj d) ts q =
     Inr (if answers_get (JObj d) (q_id q) = Inr (correct_value q)
          then AList.map_entry (topic_of q) bump_correct
                 (AList.map_entry (topic_of q) bump_total (seen_topic ts (topic_of q)))
          else AList.map_entry (topic_of q) bump_total (seen_topic ts (topic_of q)))"
  by (simp add: tally_step_def answers_get_def Let_def)

lemma tally_step_keys:
  "tally_step ua ts q = Inr ts' \<Longrightarrow>
   map fst ts' = (if topic_of q \<in> set (map fst ts) then map fst ts else map fst ts @ [topic_of q])"
  by (cases "answers_get ua (q_id q)")
     (auto simp: tally_step_def Let_def keys_map_entry seen_topic_keys simp del: set_map)

lemma tally_step_sum_total:
  "tally_step ua ts q = Inr ts' \<Longrightarrow> sum_total ts' = Suc (sum_total ts)"
  by (auto simp: tally_step_def Let_def sum_total_bump_total sum_total_bump_correct
      sum_total_seen seen_topic_mem split: sum.splits if_splits)

lemma tally_step_sum_correct:
  "tally_step ua ts q = Inr ts' \<Longrightarrow>
   sum_correct ts' = sum_correct ts + (if answered_correctly ua q then 1 else 0)"
  by (auto simp: tally_step_def Let_def sum_correct_bump_total sum_correct_bump_correct
      sum_correct_seen seen_topic_mem AList.dom_map_entry answered_correctly_def
      split: sum.splits if_splits)

lemma tally_loop_sum_total:
  "tally_loop ua ts qs = Inr ts' \<Longrightarrow> sum_total ts' = sum_total ts + length qs"
  by (induction qs arbitrary: ts) (auto split: sum.splits dest!: tally_step_sum_total)

lemma tally_loop_sum_correct:
  "tally_loop ua ts qs = Inr ts' \<Longrightarrow>
   sum_correct ts' = sum_correct ts + length (filter (answered_correctly ua) qs)"
  by (induction qs arbitrary: ts) (auto split: sum.splits dest!: tally_step_sum_correct)

lemma filter_first_seen_in:
  "t \<in> K \<Longrightarrow> filter (\<lambda>y. y \<noteq> t \<and> y \<notin> K) xs = filter (\<lambda>y. y \<notin> K) xs"
  by (induction xs) auto

lemma tally_loop_keys:
  "tally_loop ua ts qs = Inr ts' \<Longrightarrow>
   map fst ts' = map fst ts @ filter (\<lambda>t. t \<notin> set (map fst ts)) (first_seen (map topic_of qs))"
proof (induction qs arbitrary: ts)
  case Nil
  then show ?case by simp
next
  case (Cons q qs)
  from Cons.prems obtain ts1 where s: "tally_step ua ts q = Inr ts1" and l: "tally_loop ua ts1 qs = Inr ts'"
    by (auto split: sum.splits)
  note k = tally_step_keys[OF s]
  show ?case
  proof (cases "topic_of q \<in> set (map fst ts)")
    case True
    with k have "map fst ts1 = map fst ts" by simp
    with Cons.IH[OF l] True show ?thesis
      by (simp add: filter_first_seen_in)
  next
    case False
    with k have "map fst ts1 = map fst ts @ [topic_of q]" by simp
    with Cons.IH[OF l] False show ?thesis
      by simp
  qed
qed

lemma tally_loop_dict_returns: "\<exists>ts'. tally_loop (JObj d) ts qs = Inr ts'"
  by (induction qs arbitrary: ts) (auto simp: tally_step_dict)

lemma tally_loop_nondict:
  "\<forall>d. ua \<noteq> JObj d \<Longrightarrow> qs \<noteq> [] \<Longrightarrow> tally_loop ua ts qs = Inl AttributeError"
  by (cases qs; cases ua) (auto simp: tally_step_def answers_get_def Let_def)

lemma tally_loop_distinct:
  "tally_loop ua ts qs = Inr ts' \<Longrightarrow> distinct (map fst ts) \<Longrightarrow> distinct (map fst ts')"
  by (auto simp: tally_loop_keys distinct_first_seen)

lemma tally_loop_empty_keys:
  "tally_loop ua [] qs = Inr ts' \<Longrightarrow> map fst ts' = first_seen (map topic_of qs)"
  by (simp add: tally_loop_keys)

lemma map_of_seen_topic:
  "map_of (seen_topic ts t) k =
     (case map_of ts k of Some s \<Rightarrow> Some s
      | None \<Rightarrow> if k = t then Some \<lparr>tally_correct = 0, tally_total = 0\<rparr> else None)"
proof (cases "t \<in> fst ` set ts")
  case True
  then obtain s where "map_of ts t = Some s"
    by (cases "map_of ts t") (auto simp: map_of_eq_None_iff)
  with True show ?thesis
    by (auto simp: seen_topic_def split: option.splits)
next
  case False
  then have "map_of ts t = None"
    by (simp add: map_of_eq_None_iff)
  with False show ?thesis
    by (auto simp: seen_topic_def map_add_def split: option.splits)
qed

lemma total_at_seen: "total_at (seen_topic ts t) k = total_at ts k"
  by (simp add: total_at_def map_of_seen_topic split: option.splits)

lemma correct_at_seen: "correct_at (seen_topic ts t) k = correct_at ts k"
  by (simp add: correct_at_def map_of_seen_topic split: option.splits)

lemma mem_keys_map_of: "k \<in> fst ` set ts \<Longrightarrow> \<exists>s. map_of ts k = Some s"
  by (cases "map_of ts k") (auto simp: map_of_eq_None_iff)

lemma total_at_bump_total:
  "t \<in> fst ` set ts \<Longrightarrow>
   total_at (AList.map_entry t bump_total ts) k = total_at ts k + (if k = t then 1 else 0)"
  by (auto simp: total_at_def map_of_map_entry bump_total_def dest!: mem_keys_map_of split: option.splits)

lemma total_at_bump_correct: "total_at (AList.map_entry t bump_correct ts) k = total_at ts k"
  by (auto simp: total_at_def map_of_map_entry bump_correct_def split: option.splits)

lemma correct_at_bump_total: "correct_at (AList.map_entry t bump_total ts) k = correct_at ts k"
  by (auto simp: correct_at_def map_of_map_entry bump_total_def split: option.splits)

lemma correct_at_bump_correct:
  "t \<in> fst ` set ts \<Longrightarrow>
   correct_at (AList.map_entry t bump_correct ts) k = correct_at ts k + (if k = t then 1 else 0)"
  by (auto simp: correct_at_def map_of_map_entry bump_correct_def dest!: mem_keys_map_of split: option.splits)

lemma tally_step_total_at:
  "tally_step ua ts q = Inr ts' \<Longrightarrow>
   total_at ts' k = total_at ts k + (if topic_of q = k then 1 else 0)"
  by (cases "answers_get ua (q_id q)")
     (auto simp: tally_step_def Let_def total_at_bump_total total_at_bump_correct total_at_seen
        seen_topic_mem)

lemma tally_step_correct_at:
  "tally_step ua ts q = Inr ts' \<Longrightarrow>
   correct_at ts' k = correct_at ts k + (if topic_of q = k \<and> answered_correctly ua q then 1 else 0)"
  by (cases "answers_get ua (q_id q)")
     (auto simp: tally_step_def Let_def correct_at_bump_total correct_at_bump_correct correct_at_seen
        seen_topic_mem AList.dom_map_entry answered_correctly_def)

lemma tally_loop_total_at:
  "tally_loop ua ts qs = Inr ts' \<Longrightarrow>
   total_at ts' k = total_at ts k + length (filter (\<lambda>q. topic_of q = k) qs)"
proof (induction qs arbitrary: ts)
  case Nil
  then show ?case by simp
next
  case (Cons q qs)
  from Cons.prems obtain ts1 where s: "tally_step ua ts q = Inr ts1" and l: "tally_loop ua ts1 qs = Inr ts'"
    by (auto split: sum.splits)
  from Cons.IH[OF l] tally_step_total_at[OF s, of k] show ?case
    by simp
qed

lemma tally_loop_correct_at:
  "tally_loop ua ts qs = Inr ts' \<Longrightarrow>
   correct_at ts' k =
   correct_at ts k + length (filter (\<lambda>q. topic_of q = k \<and> answered_correctly ua q) qs)"
proof (induction qs arbitrary: ts)
  case Nil
  then show ?case by simp
next
  case (Cons q qs)
  from Cons.prems obtain ts1 where s: "tally_step ua ts q = Inr ts1" and l: "tally_loop ua ts1 qs = Inr ts'"
    by (auto split: sum.splits)
  from Cons.IH[OF l] tally_step_correct_at[OF s, of k] show ?case
    by simp
qed

lemma correct_at_entry:
  "distinct (map fst ts) \<Longrightarrow> (k, s) \<in> set ts \<Longrightarrow> correct_at ts k = tally_correct s"
  by (simp add: correct_at_def)

lemma total_at_entry:
  "distinct (map fst ts) \<Longrightarrow> (k, s) \<in> set ts \<Longrightarrow> total_at ts k = tally_total s"
  by (simp add: total_at_def)

subsection \<open>The second loop and the whole function\<close>

lemma assess_loop_eq:
  "assess_loop ts (tas, focus, skip) =
     (tas @ map (\<lambda>p. topic_entry (fst p) (snd p)) ts,
      focus @ map fst (filter (\<lambda>p. \<not> skips p) ts),
      skip @ map fst (filter skips ts))"
  by (induction ts arbitrary: tas focus skip) (auto simp: skips_def)

lemma sum_list_entries_total:
  "sum_list (map ta_questions_total (map (\<lambda>p. topic_entry (fst p) (snd p)) ts)) = sum_total ts"
  by (simp add: sum_total_def topic_entry_def comp_def)

lemma sum_list_entries_correct:
  "sum_list (map ta_questions_correct (map (\<lambda>p. topic_entry (fst p) (snd p)) ts)) = sum_correct ts"
  by (simp add: sum_correct_def topic_entry_def comp_def)

lemma entries_topics: "map ta_topic (map (\<lambda>p. topic_entry (fst p) (snd p)) ts) = map fst ts"
  by (simp add: topic_entry_def comp_def)

lemma compute_assessment_Inr:
  assumes "compute_assessment sid quiz answers = Inr a"
  obtains ua ts where "answers = Decoded ua"
    and "tally_loop ua [] (questions_of quiz) = Inr ts"
    and "a_topics_assessed a = map (\<lambda>p. topic_entry (fst p) (snd p)) ts"
    and "a_focus_areas a = map fst (filter (\<lambda>p. \<not> skips p) ts)"
    and "a_skip_areas a = map fst (filter skips ts)"
    and "a_overall_knowledge a = overall_of (a_topics_assessed a)"
    and "a_session_id a = sid"
    and "a_title a = (case title quiz of None \<Rightarrow> ''Quiz'' | Some t \<Rightarrow> t)"
  using assms
  by (auto simp: compute_assessment_def assess_loop_eq split: answers_arg.splits sum.splits)

lemma compute_assessment_dict:
  "\<exists>a. compute_assessment sid quiz (Decoded (JObj d)) = Inr a"
  using tally_loop_dict_returns[of d "[]" "questions_of quiz"]
  by (auto simp: compute_assessment_def split: prod.splits)

lemma score_quiz_fresh:
  assumes "map_of store sid = Some quiz" and "unscored quiz"
  shows "score_quiz store sid answers =
           (case compute_assessment sid quiz answers of
              Inl e \<Rightarrow> (Inl e, store)
            | Inr a \<Rightarrow> (Inr (Assessed a),
                        AList.update sid (quiz\<lparr>scored := True, score_result := Some a\<rparr>) store))"
  using assms by (simp add: score_quiz_def unscored_def)

lemma score_quiz_fresh_Assessed:
  assumes "map_of store sid = Some quiz" and "unscored quiz"
    and "score_quiz store sid answers = (Inr (Assessed a), store')"
  shows "compute_assessment sid quiz answers = Inr a"
  using assms by (auto simp: score_quiz_fresh split: sum.splits)

lemma score_quiz_cached_hit:
  assumes "map_of store sid = Some quiz" and "scored quiz" and "score_result quiz = Some cached"
  shows "score_quiz store sid answers = (Inr (Assessed cached), store)"
  using assms by (simp add: score_quiz_def)

lemma score_quiz_Assessed_stored:
  assumes "score_quiz store sid answers = (Inr (Assessed a), store')"
  shows "\<exists>quiz. map_of store' sid = Some quiz \<and> scored quiz \<and> score_result quiz = Some a"
  using assms
  by (auto simp: score_quiz_def update_conv' split: option.splits sum.splits if_splits)

lemma score_quiz_unknown:
  "map_of store sid = None \<Longrightarrow>
   score_quiz store sid answers
     = (Inr (SessionNotFound (''Quiz session '' @ sid @ '' not found'') (map fst store)), store)"
  by (simp add: score_quiz_def)

lemma answered_correctly_iff:
  "q_correct q = Some c \<Longrightarrow>
   answered_correctly (JObj d) q \<longleftrightarrow> map_of d (q_id q) = Some (JStr c)"
  by (auto simp: answered_correctly_def answers_get_def correct_value_def split: option.splits)

lemma length_filter_conj_le: "length (filter (\<lambda>x. P x \<and> Q x) xs) \<le> length (filter P xs)"
  by (induction xs) auto

text \<open>
  Every entry of a computed assessment counts at least one question and at most as many
  correct ones; its score is the float quotient, which does not overflow and lies
  between 0 and 1. So the \<open>else 0\<close> of line 43 is never taken.
\<close>

lemma topic_entry_in_range:
  assumes "compute_assessment sid quiz answers = Inr a" and "t \<in> set (a_topics_assessed a)"
  shows "0 < ta_questions_total t \<and> ta_questions_correct t \<le> ta_questions_total t
       \<and> ta_score t = PFloat (py_truediv (ta_questions_correct t) (ta_questions_total t))
       \<and> \<not> overflows (of_nat (ta_questions_correct t) / of_nat (ta_questions_total t))
       \<and> 0 \<le> num_val (ta_score t) \<and> num_val (ta_score t) \<le> 1"
proof -
  from assms(1) obtain ua ts where
    l: "tally_loop ua [] (questions_of quiz) = Inr ts"
    and ta: "a_topics_assessed a = map (\<lambda>p. topic_entry (fst p) (snd p)) ts"
    by (rule compute_assessment_Inr)
  have dist: "distinct (map fst ts)"
    using tally_loop_distinct[OF l] by simp
  from assms(2) ta obtain k s where p: "(k, s) \<in> set ts" and te: "t = topic_entry k s"
    by auto
  have tot: "tally_total s = length (filter (\<lambda>q. topic_of q = k) (questions_of quiz))"
    using total_at_entry[OF dist p] tally_loop_total_at[OF l, of k] by (simp add: total_at_Nil)
  have cor: "tally_correct s
      = length (filter (\<lambda>q. topic_of q = k \<and> answered_correctly ua q) (questions_of quiz))"
    using correct_at_entry[OF dist p] tally_loop_correct_at[OF l, of k] by (simp add: correct_at_Nil)
  from p have "k \<in> set (map fst ts)" by force
  then have "k \<in> set (map topic_of (questions_of quiz))"
    using tally_loop_empty_keys[OF l] by (simp add: set_first_seen)
  then obtain q where "q \<in> set (questions_of quiz)" and "topic_of q = k" by auto
  then have "q \<in> set (filter (\<lambda>q. topic_of q = k) (questions_of quiz))" by simp
  then have pos: "0 < tally_total s"
    unfolding tot by (metis length_pos_if_in_set)
  have le: "tally_correct s \<le> tally_total s"
    unfolding tot cor by (rule length_filter_conj_le)
  from pos le quotient_in_range[OF le pos] py_truediv_unit[OF le pos] show ?thesis
    by (simp add: te topic_entry_def topic_score_def)
qed

lemma overall_in_range:
  assumes "compute_assessment sid quiz answers = Inr a"
  shows "\<not> overflows (of_nat (sum_list (map ta_questions_correct (a_topics_assessed a)))
                       / of_nat (sum_list (map ta_questions_total (a_topics_assessed a))))
       \<and> 0 \<le> num_val (a_overall_knowledge a) \<and> num_val (a_overall_knowledge a) \<le> 1"
proof -
  from assms obtain ua ts where
    l: "tally_loop ua [] (questions_of quiz) = Inr ts"
    and ta: "a_topics_assessed a = map (\<lambda>p. topic_entry (fst p) (snd p)) ts"
    and o: "a_overall_knowledge a = overall_of (a_topics_assessed a)"
    by (rule compute_assessment_Inr)
  let ?c = "sum_list (map ta_questions_correct (a_topics_assessed a))"
  let ?n = "sum_list (map ta_questions_total (a_topics_assessed a))"
  have n: "?n = length (questions_of quiz)"
    using tally_loop_sum_total[OF l] by (simp only: ta sum_list_entries_total sum_total_Nil)
  have c: "?c = length (filter (answered_correctly ua) (questions_of quiz))"
    using tally_loop_sum_correct[OF l] by (simp only: ta sum_list_entries_correct sum_correct_Nil)
  have le: "?c \<le> ?n"
    unfolding n c by (rule length_filter_le)
  have e: "a_overall_knowledge a = (if 0 < ?n then PFloat (py_truediv ?c ?n) else PInt 0)"
    by (simp only: o overall_of_def Let_def)
  show ?thesis
    unfolding e by (rule guarded_quotient_in_range[OF le])
qed

subsection \<open>The examples, evaluated\<close>

lemma example_lookup: "map_of [(''s1'', example_quiz)] ''s1'' = Some example_quiz"
  by simp

lemma example_unscored: "unscored example_quiz"
  by (simp add: unscored_def example_quiz_def)

lemma example_score:
  "score_quiz [(''s1'', example_quiz)] ''s1'' (Decoded example_answers)
     = (Inr (Assessed example_assessment), [(''s1'', example_scored)])"
  by code_simp

lemma boundary_lookup: "map_of [(''s2'', boundary_quiz)] ''s2'' = Some boundary_quiz"
  by simp

lemma boundary_unscored: "unscored boundary_quiz"
  by (simp add: unscored_def boundary_quiz_def)

lemma boundary_score:
  "score_quiz [(''s2'', boundary_quiz)] ''s2'' (Decoded boundary_answers)
     = (Inr (Assessed boundary_assessment),
        [(''s2'', boundary_quiz\<lparr>scored := True, score_result := Some boundary_assessment\<rparr>)])"
  by code_simp

lemma boundary_member: "boundary_entry \<in> set (a_topics_assessed boundary_assessment)"
  by (simp add: boundary_assessment_def)

lemma partial_score:
  "score_quiz [(''s1'', example_quiz)] ''s1'' (Decoded (JObj partial_answers))
     = (Inr (Assessed partial_assessment),
        AList.update ''s1'' (example_quiz\<lparr>scored := True, score_result := Some partial_assessment\<rparr>)
          [(''s1'', example_quiz)])"
  by code_simp

subsection \<open>Totals, order and scores\<close>

text \<open>
  Claim C4. When \<open>score_quiz\<close> scores a stored quiz, the \<open>questions_total\<close> of the entries
  of \<open>topics_assessed\<close> add up to the number of questions, there is one entry per distinct
  topic, and the entries come in the order in which the topics are first seen among the
  questions.
\<close>

theorem topics_assessed_totals_and_order:
  assumes "map_of store sid = Some quiz" and "unscored quiz"
    and "score_quiz store sid answers = (Inr (Assessed a), store')"
  shows "sum_list (map ta_questions_total (a_topics_assessed a)) = length (questions_of quiz)
       \<and> length (a_topics_assessed a) = card (set (map topic_of (questions_of quiz)))
       \<and> map ta_topic (a_topics_assessed a) = first_seen (map topic_of (questions_of quiz))"
proof -
  from score_quiz_fresh_Assessed[OF assms] obtain ua ts where
    l: "tally_loop ua [] (questions_of quiz) = Inr ts"
    and t: "a_topics_assessed a = map (\<lambda>p. topic_entry (fst p) (snd p)) ts"
    by (rule compute_assessment_Inr)
  have k: "map fst ts = first_seen (map topic_of (questions_of quiz))"
    using l by (rule tally_loop_empty_keys)
  have "sum_list (map ta_questions_total (a_topics_assessed a)) = length (questions_of quiz)"
    using tally_loop_sum_total[OF l] by (simp only: t sum_list_entries_total sum_total_Nil)
  moreover have m: "map ta_topic (a_topics_assessed a) = first_seen (map topic_of (questions_of quiz))"
    by (simp only: t entries_topics k)
  moreover have "length (a_topics_assessed a) = card (set (map topic_of (questions_of quiz)))"
    using arg_cong[OF m, of length] by (simp only: length_map length_first_seen)
  ultimately show ?thesis by simp
qed

theorem topics_assessed_totals_and_order_witness:
  "map_of [(''s1'', example_quiz)] ''s1'' = Some example_quiz
   \<and> unscored example_quiz
   \<and> score_quiz [(''s1'', example_quiz)] ''s1'' (Decoded example_answers)
       = (Inr (Assessed example_assessment), [(''s1'', example_scored)])
   \<and> sum_list (map ta_questions_total (a_topics_assessed example_assessment)) = 3
   \<and> length (a_topics_assessed example_assessment) = 2
   \<and> map ta_topic (a_topics_assessed example_assessment) = [''A'', ''B'']
   \<and> first_seen (map topic_of (questions_of example_quiz)) = [''A'', ''B'']"
  using topics_assessed_totals_and_order [OF example_lookup example_unscored example_score]
    example_lookup example_unscored example_score
  by (simp add: example_assessment_def)

text \<open>
  Claim C7. The \<open>overall_knowledge\<close> of a scored quiz is the number of correctly answered
  questions divided (Python's \<open>/\<close>) by the number of questions, and the int \<open>0\<close> when the
  quiz has no questions.
\<close>

theorem overall_knowledge_is_correct_over_total:
  assumes "map_of store sid = Some quiz" and "unscored quiz"
    and "score_quiz store sid (Decoded ua) = (Inr (Assessed a), store')"
  shows "a_overall_knowledge a =
           (if questions_of quiz = [] then PInt 0
            else PFloat (py_truediv (length (filter (answered_correctly ua) (questions_of quiz)))
                                    (length (questions_of quiz))))"
proof -
  from score_quiz_fresh_Assessed[OF assms] obtain ua' ts where
    d: "Decoded ua = Decoded ua'"
    and l: "tally_loop ua' [] (questions_of quiz) = Inr ts"
    and t: "a_topics_assessed a = map (\<lambda>p. topic_entry (fst p) (snd p)) ts"
    and o: "a_overall_knowledge a = overall_of (a_topics_assessed a)"
    by (rule compute_assessment_Inr)
  from d l have l': "tally_loop ua [] (questions_of quiz) = Inr ts" by simp
  have tot: "sum_list (map ta_questions_total (a_topics_assessed a)) = length (questions_of quiz)"
    using tally_loop_sum_total[OF l'] by (simp only: t sum_list_entries_total sum_total_Nil)
  have cor: "sum_list (map ta_questions_correct (a_topics_assessed a))
           = length (filter (answered_correctly ua) (questions_of quiz))"
    using tally_loop_sum_correct[OF l']
    by (simp only: t sum_list_entries_correct sum_correct_Nil)
  show ?thesis
    by (simp add: o overall_of_def tot cor Let_def)
qed

theorem overall_knowledge_is_correct_over_total_witness:
  "map_of [(''s1'', example_quiz)] ''s1'' = Some example_quiz
   \<and> unscored example_quiz
   \<and> score_quiz [(''s1'', example_quiz)] ''s1'' (Decoded example_answers)
       = (Inr (Assessed example_assessment), [(''s1'', example_scored)])
   \<and> length (filter (answered_correctly example_answers) (questions_of example_quiz)) = 2
   \<and> length (questions_of example_quiz) = 3
   \<and> a_overall_knowledge example_assessment = PFloat (py_truediv 2 3)"
proof -
  have c: "length (filter (answered_correctly example_answers) (questions_of example_quiz)) = 2"
    by code_simp
  have n: "length (questions_of example_quiz) = 3"
    by code_simp
  from overall_knowledge_is_correct_over_total [OF example_lookup example_unscored example_score]
  have "a_overall_knowledge example_assessment = PFloat (py_truediv 2 3)"
    unfolding c n by (simp add: questions_of_def example_quiz_def example_questions_def)
  with c n example_lookup example_unscored example_score show ?thesis
    by blast
qed

text \<open>
  Claim C3. For every topic entry of a scored quiz: when its score is at least \<open>0.7\<close> its
  status is \<open>proficient\<close> and its topic is in \<open>skip_areas\<close> and not in \<open>focus_areas\<close>;
  otherwise its status is \<open>needs_review\<close> and its topic is in \<open>focus_areas\<close> and not in
  \<open>skip_areas\<close>. A score equal to \<open>0.7\<close> falls under the first case.
\<close>

theorem proficient_iff_score_reaches_threshold:
  assumes "map_of store sid = Some quiz" and "unscored quiz"
    and "score_quiz store sid answers = (Inr (Assessed a), store')"
    and "t \<in> set (a_topics_assessed a)"
  shows "if lit_0_7 \<le> num_val (ta_score t)
         then ta_status t = ''proficient'' \<and> ta_topic t \<in> set (a_skip_areas a)
              \<and> ta_topic t \<notin> set (a_focus_areas a)
         else ta_status t = ''needs_review'' \<and> ta_topic t \<in> set (a_focus_areas a)
              \<and> ta_topic t \<notin> set (a_skip_areas a)"
proof -
  from score_quiz_fresh_Assessed[OF assms(1-3)] obtain ua ts where
    l: "tally_loop ua [] (questions_of quiz) = Inr ts"
    and ta: "a_topics_assessed a = map (\<lambda>p. topic_entry (fst p) (snd p)) ts"
    and f: "a_focus_areas a = map fst (filter (\<lambda>p. \<not> skips p) ts)"
    and s: "a_skip_areas a = map fst (filter skips ts)"
    by (rule compute_assessment_Inr)
  have dist: "distinct (map fst ts)"
    using tally_loop_distinct[OF l] by simp
  from assms(4) ta obtain k sc where p: "(k, sc) \<in> set ts" and te: "t = topic_entry k sc"
    by auto
  have uniq: "sc' = sc" if "(k, sc') \<in> set ts" for sc'
    using dist p that by (meson eq_key_imp_eq_value)
  have score: "ta_score t = topic_score sc" and top: "ta_topic t = k"
    and st: "ta_status t = topic_status (topic_score sc)"
    by (simp_all add: te topic_entry_def)
  show ?thesis
  proof (cases "lit_0_7 \<le> num_val (topic_score sc)")
    case True
    then have sk: "skips (k, sc)" by (simp add: skips_def)
    have "k \<in> set (a_skip_areas a)"
      using p sk by (force simp: s)
    moreover have "k \<notin> set (a_focus_areas a)"
      using uniq sk by (auto simp: f)
    ultimately show ?thesis
      using True by (simp add: score top st topic_status_def)
  next
    case False
    then have sk: "\<not> skips (k, sc)" by (simp add: skips_def)
    have "k \<in> set (a_focus_areas a)"
      using p sk by (force simp: f)
    moreover have "k \<notin> set (a_skip_areas a)"
      using uniq sk by (auto simp: s)
    ultimately show ?thesis
      using False by (simp add: score top st topic_status_def)
  qed
qed

theorem proficient_iff_score_reaches_threshold_witness:
  "map_of [(''s2'', boundary_quiz)] ''s2'' = Some boundary_quiz
   \<and> unscored boundary_quiz
   \<and> score_quiz [(''s2'', boundary_quiz)] ''s2'' (Decoded boundary_answers)
       = (Inr (Assessed boundary_assessment),
          [(''s2'', boundary_quiz\<lparr>scored := True, score_result := Some boundary_assessment\<rparr>)])
   \<and> boundary_entry \<in> set (a_topics_assessed boundary_assessment)
   \<and> num_val (ta_score boundary_entry) = lit_0_7
   \<and> ta_status boundary_entry = ''proficient''
   \<and> ta_topic boundary_entry \<in> set (a_skip_areas boundary_assessment)
   \<and> ta_topic boundary_entry \<notin> set (a_focus_areas boundary_assessment)"
proof -
  have s: "num_val (ta_score boundary_entry) = lit_0_7"
    by (simp add: boundary_entry_def)
  from proficient_iff_score_reaches_threshold
         [OF boundary_lookup boundary_unscored boundary_score boundary_member]
  have "ta_status boundary_entry = ''proficient''
        \<and> ta_topic boundary_entry \<in> set (a_skip_areas boundary_assessment)
        \<and> ta_topic boundary_entry \<notin> set (a_focus_areas boundary_assessment)"
    by (simp add: s)
  with s boundary_lookup boundary_unscored boundary_score boundary_member show ?thesis
    by blast
qed

subsection \<open>Missing and wrong answers\<close>

text \<open>
  Claim C6. Scoring a stored, unscored quiz with any dict of answers returns an assessment
  (it does not raise, whatever ids the dict has or lacks), the \<open>questions_correct\<close> of a
  topic counts exactly the questions of the topic whose answer matches, and a question
  with a correct label matches only when the dict holds that label under the question's
  id: an absent id, and a value that differs, count as incorrect.
\<close>

theorem unanswered_counts_as_incorrect:
  assumes "map_of store sid = Some quiz" and "unscored quiz"
  shows "\<exists>a. score_quiz store sid (Decoded (JObj d))
               = (Inr (Assessed a),
                  AList.update sid (quiz\<lparr>scored := True, score_result := Some a\<rparr>) store)
             \<and> (\<forall>t \<in> set (a_topics_assessed a).
                   ta_questions_correct t =
                   length (filter (\<lambda>q. topic_of q = ta_topic t \<and> answered_correctly (JObj d) q)
                             (questions_of quiz)))
             \<and> (\<forall>q c. q_correct q = Some c \<longrightarrow>
                   (answered_correctly (JObj d) q \<longleftrightarrow> map_of d (q_id q) = Some (JStr c)))"
proof -
  obtain a where c: "compute_assessment sid quiz (Decoded (JObj d)) = Inr a"
    using compute_assessment_dict by blast
  from c obtain ua ts where u: "Decoded (JObj d) = Decoded ua"
    and l: "tally_loop ua [] (questions_of quiz) = Inr ts"
    and ta: "a_topics_assessed a = map (\<lambda>p. topic_entry (fst p) (snd p)) ts"
    by (rule compute_assessment_Inr)
  from u l have l': "tally_loop (JObj d) [] (questions_of quiz) = Inr ts" by simp
  have dist: "distinct (map fst ts)"
    using tally_loop_distinct[OF l'] by simp
  have count: "ta_questions_correct t =
        length (filter (\<lambda>q. topic_of q = ta_topic t \<and> answered_correctly (JObj d) q) (questions_of quiz))"
    if "t \<in> set (a_topics_assessed a)" for t
  proof -
    from that ta obtain k s where p: "(k, s) \<in> set ts" and te: "t = topic_entry k s"
      by auto
    have "tally_correct s = correct_at ts k"
      using correct_at_entry[OF dist p] by simp
    also have "\<dots> = length (filter (\<lambda>q. topic_of q = k \<and> answered_correctly (JObj d) q) (questions_of quiz))"
      using tally_loop_correct_at[OF l', of k] by (simp add: correct_at_Nil)
    finally show ?thesis
      by (simp add: te topic_entry_def)
  qed
  have "score_quiz store sid (Decoded (JObj d))
          = (Inr (Assessed a), AList.update sid (quiz\<lparr>scored := True, score_result := Some a\<rparr>) store)"
    using assms c by (simp add: score_quiz_fresh)
  with count answered_correctly_iff show ?thesis
    by blast
qed

theorem unanswered_counts_as_incorrect_witness:
  "map_of [(''s1'', example_quiz)] ''s1'' = Some example_quiz
   \<and> unscored example_quiz
   \<and> score_quiz [(''s1'', example_quiz)] ''s1'' (Decoded (JObj partial_answers))
       = (Inr (Assessed partial_assessment),
          AList.update ''s1'' (example_quiz\<lparr>scored := True, score_result := Some partial_assessment\<rparr>)
            [(''s1'', example_quiz)])
   \<and> ta_questions_correct partial_entry
       = length (filter (\<lambda>q. topic_of q = ''A'' \<and> answered_correctly (JObj partial_answers) q)
                   (questions_of example_quiz))
   \<and> ta_questions_correct partial_entry = 1
   \<and> map_of partial_answers (q_id example_q2) = None
   \<and> \<not> answered_correctly (JObj partial_answers) example_q2
   \<and> map_of partial_answers (q_id example_q3) = Some (JStr ''C'')
   \<and> q_correct example_q3 = Some ''B''
   \<and> \<not> answered_correctly (JObj partial_answers) example_q3"
proof -
  from unanswered_counts_as_incorrect [OF example_lookup example_unscored, of partial_answers]
  obtain a where
    eq: "score_quiz [(''s1'', example_quiz)] ''s1'' (Decoded (JObj partial_answers))
           = (Inr (Assessed a),
              AList.update ''s1'' (example_quiz\<lparr>scored := True, score_result := Some a\<rparr>)
                [(''s1'', example_quiz)])"
    and count: "\<forall>t \<in> set (a_topics_assessed a).
                   ta_questions_correct t =
                   length (filter (\<lambda>q. topic_of q = ta_topic t \<and> answered_correctly (JObj partial_answers) q)
                             (questions_of example_quiz))"
    and match: "\<forall>q c. q_correct q = Some c \<longrightarrow>
                   (answered_correctly (JObj partial_answers) q
                    \<longleftrightarrow> map_of partial_answers (q_id q) = Some (JStr c))"
    by blast
  from eq have a: "a = partial_assessment"
    by (simp add: partial_score)
  have m: "partial_entry \<in> set (a_topics_assessed a)"
    by (simp add: a partial_assessment_def)
  have t: "ta_topic partial_entry = ''A''"
    by (simp add: partial_entry_def)
  from count m t have c1: "ta_questions_correct partial_entry
       = length (filter (\<lambda>q. topic_of q = ''A'' \<and> answered_correctly (JObj partial_answers) q)
                   (questions_of example_quiz))"
    by fastforce
  have c2: "ta_questions_correct partial_entry = 1"
    by (simp add: partial_entry_def)
  have l2: "map_of partial_answers (q_id example_q2) = None"
    by (simp add: partial_answers_def example_q2_def)
  have k2: "q_correct example_q2 = Some ''C''"
    by (simp add: example_q2_def)
  have l3: "map_of partial_answers (q_id example_q3) = Some (JStr ''C'')"
    by (simp add: partial_answers_def example_q3_def)
  have k3: "q_correct example_q3 = Some ''B''"
    by (simp add: example_q3_def)
  from match k2 l2 have n2: "\<not> answered_correctly (JObj partial_answers) example_q2"
    by simp
  from match k3 l3 have n3: "\<not> answered_correctly (JObj partial_answers) example_q3"
    by simp
  from example_lookup example_unscored partial_score c1 c2 l2 n2 l3 k3 n3 show ?thesis
    by blast
qed

subsection \<open>The cached result\<close>

lemma cached_at_hit:
  "cached_at store sid a \<Longrightarrow> score_quiz store sid answers = (Inr (Assessed a), store)"
  by (auto simp: cached_at_def score_quiz_def split: option.splits)

lemma cached_at_after:
  "score_quiz store sid answers = (Inr (Assessed a), store') \<Longrightarrow> cached_at store' sid a"
  using score_quiz_Assessed_stored[of store sid answers a store']
  by (auto simp: cached_at_def)

lemma cached_at_score_quiz:
  assumes "cached_at store sid a"
  shows "cached_at (snd (score_quiz store sid' answers)) sid a"
proof (cases "sid' = sid")
  case True
  with assms show ?thesis
    by (simp add: cached_at_hit)
next
  case False
  with assms show ?thesis
    by (auto simp: cached_at_def score_quiz_def update_conv' split: option.splits sum.splits)
qed

lemma cached_at_score_attempts:
  "cached_at store sid a \<Longrightarrow> cached_at (score_attempts store calls) sid a"
  by (induction calls arbitrary: store) (auto simp: cached_at_score_quiz)

text \<open>
  Claim C1. A call of \<open>score_quiz\<close> for a session whose stored quiz has \<open>_scored\<close> and a
  cached \<open>_score_result\<close> returns that cached assessment and leaves the store as it is,
  whatever the answers argument (one that does not decode included). So once a call has
  returned an assessment for a session, every later call for it returns the same
  assessment, also after any number of scoring attempts in between, on this or on other
  sessions.
\<close>

theorem score_quiz_returns_cached:
  "(map_of store sid = Some quiz \<and> scored quiz \<and> score_result quiz = Some cached
      \<longrightarrow> score_quiz store sid answers = (Inr (Assessed cached), store))
   \<and> (score_quiz store sid first_answers = (Inr (Assessed a), store1)
      \<longrightarrow> score_quiz (score_attempts store1 calls) sid later_answers
            = (Inr (Assessed a), score_attempts store1 calls))"
proof (intro conjI impI)
  assume "map_of store sid = Some quiz \<and> scored quiz \<and> score_result quiz = Some cached"
  then show "score_quiz store sid answers = (Inr (Assessed cached), store)"
    by (simp add: score_quiz_cached_hit)
next
  assume "score_quiz store sid first_answers = (Inr (Assessed a), store1)"
  then have "cached_at store1 sid a"
    by (rule cached_at_after)
  then have "cached_at (score_attempts store1 calls) sid a"
    by (rule cached_at_score_attempts)
  then show "score_quiz (score_attempts store1 calls) sid later_answers
            = (Inr (Assessed a), score_attempts store1 calls)"
    by (rule cached_at_hit)
qed

theorem score_quiz_returns_cached_witness:
  "map_of [(''s1'', example_scored)] ''s1'' = Some example_scored
   \<and> scored example_scored
   \<and> score_result example_scored = Some example_assessment
   \<and> score_quiz [(''s1'', example_scored)] ''s1'' Undecodable
       = (Inr (Assessed example_assessment), [(''s1'', example_scored)])
   \<and> score_quiz [(''s1'', example_quiz)] ''s1'' (Decoded example_answers)
       = (Inr (Assessed example_assessment), [(''s1'', example_scored)])
   \<and> score_attempts [(''s1'', example_scored)] later_attempts = [(''s1'', example_scored)]
   \<and> score_quiz (score_attempts [(''s1'', example_scored)] later_attempts) ''s1''
         (Decoded (JObj [(''q1'', JStr ''D'')]))
       = (Inr (Assessed example_assessment), [(''s1'', example_scored)])"
proof -
  have h: "map_of [(''s1'', example_scored)] ''s1'' = Some example_scored
           \<and> scored example_scored \<and> score_result example_scored = Some example_assessment"
    by (simp add: example_scored_def)
  have e: "score_attempts [(''s1'', example_scored)] later_attempts = [(''s1'', example_scored)]"
    by code_simp
  note c = score_quiz_returns_cached
         [of "[(''s1'', example_scored)]" "''s1''" example_scored example_assessment Undecodable]
  note l = score_quiz_returns_cached
         [of "[(''s1'', example_quiz)]" "''s1''" example_quiz example_assessment Undecodable
             "Decoded example_answers" example_assessment "[(''s1'', example_scored)]"
             later_attempts "Decoded (JObj [(''q1'', JStr ''D'')])"]
  from l example_score have
    "score_quiz (score_attempts [(''s1'', example_scored)] later_attempts) ''s1''
         (Decoded (JObj [(''q1'', JStr ''D'')]))
       = (Inr (Assessed example_assessment), score_attempts [(''s1'', example_scored)] later_attempts)"
    by blast
  with c h example_score e show ?thesis
    by simp
qed

subsection \<open>Failed attempts\<close>

lemma set_update_subset: "set (AList.update k v al) \<subseteq> insert (k, v) (set al)"
  by (induction al) auto

lemma store_consistent_update:
  "store_consistent store \<Longrightarrow> \<not> scored quiz \<or> score_result quiz \<noteq> None \<Longrightarrow>
   store_consistent (AList.update sid quiz store)"
  using set_update_subset[of sid quiz store]
  by (auto simp: store_consistent_def list_all_iff)

lemma score_quiz_consistent:
  "store_consistent store \<Longrightarrow> store_consistent (snd (score_quiz store sid answers))"
  by (auto simp: score_quiz_def store_consistent_update split: option.splits sum.splits)

lemma score_attempts_consistent:
  "store_consistent store \<Longrightarrow> store_consistent (score_attempts store calls)"
  by (induction calls arbitrary: store) (auto simp: score_quiz_consistent)

lemma score_quiz_raises_unchanged:
  "fst (score_quiz store sid answers) = Inl e \<Longrightarrow> snd (score_quiz store sid answers) = store"
  by (auto simp: score_quiz_def split: option.splits sum.splits)

lemma score_quiz_not_found_unchanged:
  "fst (score_quiz store sid answers) = Inr (SessionNotFound msg ks) \<Longrightarrow>
   snd (score_quiz store sid answers) = store"
  by (auto simp: score_quiz_def split: option.splits sum.splits)

text \<open>
  Claim C9. A call of \<open>score_quiz\<close> that raises, or that returns the session-not-found
  document, leaves the store as it was; and a store in which no quiz has \<open>_scored\<close> without
  \<open>_score_result\<close> stays so under any sequence of scoring attempts.
\<close>

theorem failed_scoring_keeps_store_consistent:
  "(fst (score_quiz store sid answers) = Inl e \<longrightarrow> snd (score_quiz store sid answers) = store)
   \<and> (fst (score_quiz store sid answers) = Inr (SessionNotFound msg ks)
        \<longrightarrow> snd (score_quiz store sid answers) = store)
   \<and> (store_consistent store \<longrightarrow> store_consistent (score_attempts store calls))"
  using score_quiz_raises_unchanged score_quiz_not_found_unchanged score_attempts_consistent
  by blast

theorem failed_scoring_keeps_store_consistent_witness:
  "fst (score_quiz [(''s1'', example_quiz)] ''s1'' Undecodable) = Inl JSONDecodeError
   \<and> snd (score_quiz [(''s1'', example_quiz)] ''s1'' Undecodable) = [(''s1'', example_quiz)]
   \<and> fst (score_quiz [(''s1'', example_quiz)] ''zz'' (Decoded example_answers))
       = Inr (SessionNotFound ''Quiz session zz not found'' [''s1''])
   \<and> snd (score_quiz [(''s1'', example_quiz)] ''zz'' (Decoded example_answers))
       = [(''s1'', example_quiz)]
   \<and> store_consistent [(''s1'', example_quiz)]
   \<and> score_attempts [(''s1'', example_quiz)] example_attempts = [(''s1'', example_scored)]
   \<and> store_consistent (score_attempts [(''s1'', example_quiz)] example_attempts)"
proof -
  have r: "fst (score_quiz [(''s1'', example_quiz)] ''s1'' Undecodable) = Inl JSONDecodeError"
    by code_simp
  have n: "fst (score_quiz [(''s1'', example_quiz)] ''zz'' (Decoded example_answers))
       = Inr (SessionNotFound ''Quiz session zz not found'' [''s1''])"
    by code_simp
  have c: "store_consistent [(''s1'', example_quiz)]"
    by code_simp
  have e: "score_attempts [(''s1'', example_quiz)] example_attempts = [(''s1'', example_scored)]"
    by code_simp
  note t1 = failed_scoring_keeps_store_consistent
      [of "[(''s1'', example_quiz)]" "''s1''" Undecodable JSONDecodeError _ _ example_attempts]
  note t2 = failed_scoring_keeps_store_consistent
      [of "[(''s1'', example_quiz)]" "''zz''" "Decoded example_answers" _
          "''Quiz session zz not found''" "[''s1'']" example_attempts]
  from t1 t2 r n c e show ?thesis
    by blast
qed

section \<open>Properties of the Quiz Generator\<close>

lemma generate_quiz_eq:
  "generate_quiz store sid (Inr result) =
     (Inr \<lparr>v_session_id = sid,
           v_title = (case g_title result of None \<Rightarrow> ''Quiz'' | Some t \<Rightarrow> t),
           v_topics = (case g_topics result of None \<Rightarrow> [] | Some ts \<Rightarrow> ts),
           v_questions = map strip_correct (map normalize_question (raw_questions result))\<rparr>,
      AList.update sid
        \<lparr>title = g_title result, topics = g_topics result,
         questions = map_option (map normalize_question) (g_questions result),
         scored = False, score_result = None\<rparr> store)"
  by (cases "g_questions result")
     (simp_all add: generate_quiz_def Let_def questions_of_def raw_questions_def)

lemma normalize_question_correct:
  "q_correct_answer q = Some a \<Longrightarrow>
   q_correct (normalize_question q) = Some a \<and> q_correct_answer (normalize_question q) = None"
  by (simp add: normalize_question_def)

lemma normalize_question_no_answer_key: "q_correct_answer (normalize_question q) = None"
  by (cases "q_correct_answer q") (simp_all add: normalize_question_def)

lemma normalize_question_fields:
  "q_id (normalize_question q) = q_id q \<and> q_topic (normalize_question q) = q_topic q
   \<and> q_question (normalize_question q) = q_question q
   \<and> q_options (normalize_question q) = q_options q"
  by (cases "q_correct_answer q") (simp_all add: normalize_question_def)

lemma strip_correct_fields:
  "q_correct (strip_correct q) = None \<and> q_correct_answer (strip_correct q) = q_correct_answer q
   \<and> q_id (strip_correct q) = q_id q \<and> q_topic (strip_correct q) = q_topic q
   \<and> q_question (strip_correct q) = q_question q \<and> q_options (strip_correct q) = q_options q"
  by (simp add: strip_correct_def)

lemma generate_example:
  "generate_quiz [] ''s3'' (Inr raw_example) = (Inr view_example, [(''s3'', stored_example)])"
  by code_simp

text \<open>
  Claim C8. A generation that succeeds returns the session id, the title, the topics and
  the questions, none of which has a \<open>correct\<close> (or \<open>correct_answer\<close>) field, the other
  fields being those of the reply; and the quiz stored under the session id keeps, for
  every question, the label of the reply's \<open>correct_answer\<close> in its \<open>correct\<close> field.
\<close>

theorem generate_quiz_hides_correct_and_stores_it:
  "\<exists>view stored store'.
      generate_quiz store sid (Inr result) = (Inr view, store')
    \<and> map_of store' sid = Some stored
    \<and> v_session_id view = sid
    \<and> v_title view = (case g_title result of None \<Rightarrow> ''Quiz'' | Some t \<Rightarrow> t)
    \<and> v_topics view = (case g_topics result of None \<Rightarrow> [] | Some ts \<Rightarrow> ts)
    \<and> length (v_questions view) = length (raw_questions result)
    \<and> length (questions_of stored) = length (raw_questions result)
    \<and> (\<forall>i < length (raw_questions result).
          q_correct (v_questions view ! i) = None
        \<and> q_correct_answer (v_questions view ! i) = None
        \<and> q_id (v_questions view ! i) = q_id (raw_questions result ! i)
        \<and> q_topic (v_questions view ! i) = q_topic (raw_questions result ! i)
        \<and> q_question (v_questions view ! i) = q_question (raw_questions result ! i)
        \<and> q_options (v_questions view ! i) = q_options (raw_questions result ! i)
        \<and> (\<forall>a. q_correct_answer (raw_questions result ! i) = Some a \<longrightarrow>
               q_correct (questions_of stored ! i) = Some a))"
proof -
  let ?stored = "\<lparr>title = g_title result, topics = g_topics result,
         questions = map_option (map normalize_question) (g_questions result),
         scored = False, score_result = None\<rparr>"
  let ?view = "\<lparr>v_session_id = sid,
           v_title = (case g_title result of None \<Rightarrow> ''Quiz'' | Some t \<Rightarrow> t),
           v_topics = (case g_topics result of None \<Rightarrow> [] | Some ts \<Rightarrow> ts),
           v_questions = map strip_correct (map normalize_question (raw_questions result))\<rparr>"
  have q: "questions_of ?stored = map normalize_question (raw_questions result)"
    by (cases "g_questions result") (simp_all add: questions_of_def raw_questions_def)
  have "generate_quiz store sid (Inr result) = (Inr ?view, AList.update sid ?stored store)"
    by (rule generate_quiz_eq)
  moreover have "map_of (AList.update sid ?stored store) sid = Some ?stored"
    by (simp add: update_conv')
  moreover have "\<forall>i < length (raw_questions result).
          q_correct (v_questions ?view ! i) = None
        \<and> q_correct_answer (v_questions ?view ! i) = None
        \<and> q_id (v_questions ?view ! i) = q_id (raw_questions result ! i)
        \<and> q_topic (v_questions ?view ! i) = q_topic (raw_questions result ! i)
        \<and> q_question (v_questions ?view ! i) = q_question (raw_questions result ! i)
        \<and> q_options (v_questions ?view ! i) = q_options (raw_questions result ! i)
        \<and> (\<forall>a. q_correct_answer (raw_questions result ! i) = Some a \<longrightarrow>
               q_correct (questions_of ?stored ! i) = Some a)"
    by (simp add: q strip_correct_fields normalize_question_fields normalize_question_no_answer_key
          normalize_question_correct)
  moreover have "length (questions_of ?stored) = length (raw_questions result)"
    by (simp add: q)
  ultimately show ?thesis
    by (intro exI[of _ ?view] exI[of _ ?stored] exI[of _ "AList.update sid ?stored store"]) simp
qed

theorem generate_quiz_hides_correct_and_stores_it_witness:
  "generate_quiz [] ''s3'' (Inr raw_example) = (Inr view_example, [(''s3'', stored_example)])
   \<and> length (raw_questions raw_example) = 2
   \<and> q_correct_answer (raw_questions raw_example ! 0) = Some ''B''
   \<and> q_correct (v_questions view_example ! 0) = None
   \<and> q_correct_answer (v_questions view_example ! 0) = None
   \<and> q_correct (questions_of stored_example ! 0) = Some ''B''"
proof -
  from generate_quiz_hides_correct_and_stores_it [of "[]" "''s3''" raw_example]
  obtain view stored store' where
    g: "generate_quiz [] ''s3'' (Inr raw_example) = (Inr view, store')"
    and m: "map_of store' ''s3'' = Some stored"
    and a: "\<forall>i < length (raw_questions raw_example).
          q_correct (v_questions view ! i) = None
        \<and> q_correct_answer (v_questions view ! i) = None
        \<and> q_id (v_questions view ! i) = q_id (raw_questions raw_example ! i)
        \<and> q_topic (v_questions view ! i) = q_topic (raw_questions raw_example ! i)
        \<and> q_question (v_questions view ! i) = q_question (raw_questions raw_example ! i)
        \<and> q_options (v_questions view ! i) = q_options (raw_questions raw_example ! i)
        \<and> (\<forall>a. q_correct_answer (raw_questions raw_example ! i) = Some a \<longrightarrow>
               q_correct (questions_of stored ! i) = Some a)"
    by blast
  from g have v: "view = view_example" and s: "store' = [(''s3'', stored_example)]"
    by (simp_all add: generate_example)
  from m s have st: "stored = stored_example"
    by simp
  have n: "length (raw_questions raw_example) = 2"
    by (simp add: raw_questions_def raw_example_def)
  have k: "q_correct_answer (raw_questions raw_example ! 0) = Some ''B''"
    by (simp add: raw_questions_def raw_example_def)
  from a n have "q_correct (v_questions view ! 0) = None
        \<and> q_correct_answer (v_questions view ! 0) = None
        \<and> (\<forall>a. q_correct_answer (raw_questions raw_example ! 0) = Some a \<longrightarrow>
               q_correct (questions_of stored ! 0) = Some a)"
    by simp
  with k v st generate_example n show ?thesis
    by simp
qed

section \<open>Properties of the Organizer\<close>

lemma map_of_set_progress:
  "map_of (set_progress node p) ''progressPercent'' = Some (JNum (PInt p))
   \<and> map_of (set_progress node p) ''status'' = Some (JStr (progress_status p))"
  by (simp add: set_progress_def update_conv')

lemma map_of_set_progress_other:
  "k \<noteq> ''progressPercent'' \<Longrightarrow> k \<noteq> ''status'' \<Longrightarrow> map_of (set_progress node p) k = map_of node k"
  by (simp add: set_progress_def update_conv')

lemma content_node_of_override:
  "override_progress result p = Inr out \<Longrightarrow>
   \<exists>node. content_node_of out = set_progress node p"
proof (cases result)
  case (JObj d)
  assume o: "override_progress result p = Inr out"
  show ?thesis
  proof (cases "map_of d ''content_node''")
    case None
    with o JObj have "out = JObj (set_progress d p)"
      by (simp add: override_progress_def)
    moreover have "map_of (set_progress d p) ''content_node'' = None"
      using None by (simp add: map_of_set_progress_other)
    ultimately show ?thesis
      by (auto simp: content_node_of_def)
  next
    case (Some v)
    with o JObj obtain c where v: "v = JObj c"
      by (cases v) (simp_all add: override_progress_def)
    with o JObj Some have "out = JObj (AList.update ''content_node'' (JObj (set_progress c p)) d)"
      by (simp add: override_progress_def)
    then show ?thesis
      by (auto simp: content_node_of_def update_conv')
  qed
qed (simp_all add: override_progress_def)

lemma organize_content_Inr:
  assumes "organize_content aj response = Inr out"
  obtains p result where "progress_of (overall_knowledge_of aj) = Inr p"
    and "response = Inr result" and "override_progress result p = Inr out"
  using assms
  by (cases aj) (auto simp: organize_content_def split: sum.splits)

lemma progress_of_value:
  "progress_of n = Inr p \<Longrightarrow>
   (\<forall>x. n = PFloat x \<longrightarrow> p = py_int (round_double (x * 100))) \<and> (\<forall>i. n = PInt i \<longrightarrow> p = i * 100)"
  by (cases n) (auto simp: progress_of_def split: if_splits)

text \<open>
  Claim C2, amended. Whenever \<open>organize_content\<close> returns, the dict its override lands in
  (the nested \<open>content_node\<close>, else the reply itself) has \<open>progressPercent\<close> equal to
  \<open>int(overall_knowledge * 100)\<close>, the product truncated towards zero (0 without an
  assessment or without \<open>overall_knowledge\<close>), and \<open>status\<close> equal to \<open>completed\<close> when that
  number is at least 100, \<open>in_progress\<close> when it is above 0, and \<open>not_started\<close> otherwise,
  whatever the reply held under those keys. It returns on every reply that is an object
  whose \<open>content_node\<close>, if any, is an object, unless the product overflows.
\<close>

theorem organize_content_sets_truncated_progress:
  "(organize_content assessment response = Inr out \<longrightarrow>
      (\<exists>p. progress_of (overall_knowledge_of assessment) = Inr p
         \<and> (\<forall>x. overall_knowledge_of assessment = PFloat x \<longrightarrow> p = py_int (round_double (x * 100)))
         \<and> (\<forall>i. overall_knowledge_of assessment = PInt i \<longrightarrow> p = i * 100)
         \<and> map_of (content_node_of out) ''progressPercent'' = Some (JNum (PInt p))
         \<and> map_of (content_node_of out) ''status''
             = Some (JStr (if 100 \<le> p then ''completed''
                           else if 0 < p then ''in_progress'' else ''not_started''))))
   \<and> (assessment \<noteq> UndecodableAssessment
       \<and> progress_of (overall_knowledge_of assessment) = Inr q
       \<and> (map_of d ''content_node'' = None \<or> (\<exists>c. map_of d ''content_node'' = Some (JObj c)))
      \<longrightarrow> (\<exists>out'. organize_content assessment (Inr (JObj d)) = Inr out'))"
proof (intro conjI impI)
  assume "organize_content assessment response = Inr out"
  then obtain p result where p: "progress_of (overall_knowledge_of assessment) = Inr p"
    and o: "override_progress result p = Inr out"
    by (rule organize_content_Inr)
  from content_node_of_override[OF o] obtain node where n: "content_node_of out = set_progress node p"
    by blast
  from progress_of_value[OF p] p map_of_set_progress[of node p]
  show "\<exists>p. progress_of (overall_knowledge_of assessment) = Inr p
         \<and> (\<forall>x. overall_knowledge_of assessment = PFloat x \<longrightarrow> p = py_int (round_double (x * 100)))
         \<and> (\<forall>i. overall_knowledge_of assessment = PInt i \<longrightarrow> p = i * 100)
         \<and> map_of (content_node_of out) ''progressPercent'' = Some (JNum (PInt p))
         \<and> map_of (content_node_of out) ''status''
             = Some (JStr (if 100 \<le> p then ''completed''
                           else if 0 < p then ''in_progress'' else ''not_started''))"
    by (intro exI[of _ p]) (simp add: n progress_status_def)
next
  assume "assessment \<noteq> UndecodableAssessment
       \<and> progress_of (overall_knowledge_of assessment) = Inr q
       \<and> (map_of d ''content_node'' = None \<or> (\<exists>c. map_of d ''content_node'' = Some (JObj c)))"
  then show "\<exists>out'. organize_content assessment (Inr (JObj d)) = Inr out'"
    by (cases assessment) (auto simp: organize_content_def override_progress_def)
qed

theorem organize_content_sets_truncated_progress_witness:
  "organize_content (DecodedAssessment (Some (PFloat 1))) (Inr (JObj example_reply))
     = Inr example_organized
   \<and> progress_of (overall_knowledge_of (DecodedAssessment (Some (PFloat 1)))) = Inr 100
   \<and> py_int (round_double (1 * 100)) = 100
   \<and> map_of (content_node_of example_organized) ''progressPercent'' = Some (JNum (PInt 100))
   \<and> map_of (content_node_of example_organized) ''status'' = Some (JStr ''completed'')
   \<and> DecodedAssessment (Some (PFloat 1)) \<noteq> UndecodableAssessment
   \<and> map_of example_reply ''content_node''
       = Some (JObj [(''title'', JStr ''Sets''), (''status'', JStr ''not_started''),
                     (''progressPercent'', JNum (PInt 5))])"
proof -
  have e: "organize_content (DecodedAssessment (Some (PFloat 1))) (Inr (JObj example_reply))
     = Inr example_organized"
    by code_simp
  have p: "progress_of (overall_knowledge_of (DecodedAssessment (Some (PFloat 1)))) = Inr 100"
    by code_simp
  have c: "map_of example_reply ''content_node''
       = Some (JObj [(''title'', JStr ''Sets''), (''status'', JStr ''not_started''),
                     (''progressPercent'', JNum (PInt 5))])"
    by (simp add: example_reply_def)
  note t = organize_content_sets_truncated_progress
      [of "DecodedAssessment (Some (PFloat 1))" "Inr (JObj example_reply)" example_organized
          100 example_reply]
  from t e obtain q where
    q: "progress_of (overall_knowledge_of (DecodedAssessment (Some (PFloat 1)))) = Inr q"
    and v: "\<forall>x. overall_knowledge_of (DecodedAssessment (Some (PFloat 1))) = PFloat x
             \<longrightarrow> q = py_int (round_double (x * 100))"
    and m1: "map_of (content_node_of example_organized) ''progressPercent'' = Some (JNum (PInt q))"
    and m2: "map_of (content_node_of example_organized) ''status''
             = Some (JStr (if 100 \<le> q then ''completed''
                           else if 0 < q then ''in_progress'' else ''not_started''))"
    by blast
  from q p have q100: "q = 100" by simp
  from v q100 have r: "py_int (round_double (1 * 100)) = 100" by simp
  from m1 q100 have n1: "map_of (content_node_of example_organized) ''progressPercent''
                         = Some (JNum (PInt 100))" by simp
  from m2 q100 have n2: "map_of (content_node_of example_organized) ''status''
                         = Some (JStr ''completed'')" by simp
  from e p r n1 n2 c show ?thesis
    by simp
qed

text \<open>
  Claim C2 as stated fails: for the \<open>overall_knowledge\<close> of the scenario, two of three
  questions correct, the code sets \<open>progressPercent\<close> to 66, while rounding the product
  gives 67.
\<close>

theorem progress_is_truncated_not_rounded:
  "organize_content (DecodedAssessment (Some (PFloat (py_truediv 2 3))))
       (Inr (JObj [(''progressPercent'', JNum (PInt 67)), (''status'', JStr ''completed'')]))
     = Inr (JObj [(''progressPercent'', JNum (PInt 66)), (''status'', JStr ''in_progress'')])
   \<and> round_half_even (round_double (py_truediv 2 3 * 100)) = 67"
  by code_simp

section \<open>Properties at the HTTP boundary\<close>

text \<open>
  Claim C5. For a session id that is not in the store, \<open>score_quiz\<close> returns the
  session-not-found document and leaves the store unchanged; the fallback of \<open>run_triage\<close>
  hands that document on; and \<open>submit_assessment_answers\<close> answers with status 500: its
  \<open>HTTPException\<close> of status 400 is raised inside the \<open>try\<close> block and caught by
  \<open>except Exception\<close>.
\<close>

theorem unknown_session_surfaces_as_500:
  assumes "map_of store sid = None"
    and "organize_content (DecodedAssessment None) response = Inr org"
  shows "score_quiz store sid answers
           = (Inr (SessionNotFound (''Quiz session '' @ sid @ '' not found'') (map fst store)), store)
       \<and> run_triage_fallback store sid request_answers response
           = (Inr \<lparr>tr_assessment =
                     Some (SessionNotFound (''Quiz session '' @ sid @ '' not found'') (map fst store)),
                   tr_organization = Some org\<rparr>, store)
       \<and> submit_assessment_answers True
             (fst (run_triage_fallback store sid request_answers response)) build = Inl 500"
  using assms
  by (simp add: score_quiz_unknown run_triage_fallback_def submit_assessment_answers_def)

theorem unknown_session_surfaces_as_500_witness:
  "map_of [(''s1'', example_quiz)] ''zz'' = None
   \<and> organize_content (DecodedAssessment None) (Inr (JObj []))
       = Inr (JObj [(''progressPercent'', JNum (PInt 0)), (''status'', JStr ''not_started'')])
   \<and> score_quiz [(''s1'', example_quiz)] ''zz'' (Decoded example_answers)
       = (Inr (SessionNotFound ''Quiz session zz not found'' [''s1'']), [(''s1'', example_quiz)])
   \<and> submit_assessment_answers True
         (fst (run_triage_fallback [(''s1'', example_quiz)] ''zz'' [(''q1'', ''A'')] (Inr (JObj []))))
         (\<lambda>result. Inr result)
       = Inl 500"
proof -
  have h1: "map_of [(''s1'', example_quiz)] ''zz'' = None"
    by simp
  have h2: "organize_content (DecodedAssessment None) (Inr (JObj []))
       = Inr (JObj [(''progressPercent'', JNum (PInt 0)), (''status'', JStr ''not_started'')])"
    by code_simp
  note t = unknown_session_surfaces_as_500
         [OF h1 h2, of "Decoded example_answers" "[(''q1'', ''A'')]" "\<lambda>result. Inr result"]
  from t have a: "score_quiz [(''s1'', example_quiz)] ''zz'' (Decoded example_answers)
       = (Inr (SessionNotFound ''Quiz session zz not found'' [''s1'']), [(''s1'', example_quiz)])"
    by simp
  from t have b: "submit_assessment_answers True
         (fst (run_triage_fallback [(''s1'', example_quiz)] ''zz'' [(''q1'', ''A'')] (Inr (JObj []))))
         (\<lambda>result. Inr result)
       = Inl 500"
    by blast
  from h1 h2 a b show ?thesis
    by blast
qed

text \<open>
  Claim C10. A question of a stored quiz that has no \<open>topic\<close> is tallied under the topic
  \<open>General\<close>: scoring gives an entry of that topic whose \<open>questions_total\<close> counts the
  questions that have no topic or the topic \<open>General\<close>. And \<open>POST /assess\<close> reports the
  topic \<open>General\<close> for a question that \<open>run_assess\<close> returned without a topic.
\<close>

theorem missing_topic_is_general:
  "(map_of store sid = Some quiz \<and> unscored quiz \<and> q \<in> set (questions_of quiz) \<and> q_topic q = None
      \<and> score_quiz store sid answers = (Inr (Assessed a), store')
     \<longrightarrow> topic_of q = ''General''
       \<and> (\<exists>t \<in> set (a_topics_assessed a).
             ta_topic t = ''General''
           \<and> ta_questions_total t
               = length (filter (\<lambda>q'. topic_of q' = ''General'') (questions_of quiz))
           \<and> 0 < ta_questions_total t))
   \<and> (r_questions result = Some qs \<and> i < length qs \<and> q_topic (qs ! i) = None
     \<longrightarrow> (\<exists>response. assess_content True (Inr result) = Inr response
           \<and> length (qr_questions response) = length qs
           \<and> qq_id (qr_questions response ! i) = q_id (qs ! i)
           \<and> qq_topic (qr_questions response ! i) = ''General''))"
proof (intro conjI impI)
  assume h: "map_of store sid = Some quiz \<and> unscored quiz \<and> q \<in> set (questions_of quiz)
      \<and> q_topic q = None \<and> score_quiz store sid answers = (Inr (Assessed a), store')"
  then have g: "topic_of q = ''General''"
    by (simp add: topic_of_def)
  from h have c: "compute_assessment sid quiz answers = Inr a"
    using score_quiz_fresh_Assessed by blast
  from c obtain ua ts where
    l: "tally_loop ua [] (questions_of quiz) = Inr ts"
    and ta: "a_topics_assessed a = map (\<lambda>p. topic_entry (fst p) (snd p)) ts"
    by (rule compute_assessment_Inr)
  have dist: "distinct (map fst ts)"
    using tally_loop_distinct[OF l] by simp
  from h g have "''General'' \<in> set (map topic_of (questions_of quiz))"
    by force
  then have "''General'' \<in> set (map fst ts)"
    using tally_loop_empty_keys[OF l] by (simp only: first_seen_mem)
  then obtain s where p: "(''General'', s) \<in> set ts"
    by auto
  have "tally_total s = total_at ts ''General''"
    using total_at_entry[OF dist p] by simp
  also have "\<dots> = length (filter (\<lambda>q'. topic_of q' = ''General'') (questions_of quiz))"
    using tally_loop_total_at[OF l, of "''General''"] by (simp add: total_at_Nil)
  finally have n: "tally_total s = length (filter (\<lambda>q'. topic_of q' = ''General'') (questions_of quiz))" .
  from h g have "q \<in> set (filter (\<lambda>q'. topic_of q' = ''General'') (questions_of quiz))"
    by simp
  then have pos: "0 < length (filter (\<lambda>q'. topic_of q' = ''General'') (questions_of quiz))"
    by (metis length_pos_if_in_set)
  have m: "topic_entry ''General'' s \<in> set (a_topics_assessed a)"
    using p by (force simp: ta)
  have "ta_topic (topic_entry ''General'' s) = ''General''
      \<and> ta_questions_total (topic_entry ''General'' s)
          = length (filter (\<lambda>q'. topic_of q' = ''General'') (questions_of quiz))
      \<and> 0 < ta_questions_total (topic_entry ''General'' s)"
    using n pos by (simp add: topic_entry_def)
  with m show "\<exists>t \<in> set (a_topics_assessed a).
             ta_topic t = ''General''
           \<and> ta_questions_total t
               = length (filter (\<lambda>q'. topic_of q' = ''General'') (questions_of quiz))
           \<and> 0 < ta_questions_total t"
    by blast
  from g show "topic_of q = ''General''" .
next
  assume "r_questions result = Some qs \<and> i < length qs \<and> q_topic (qs ! i) = None"
  then show "\<exists>response. assess_content True (Inr result) = Inr response
           \<and> length (qr_questions response) = length qs
           \<and> qq_id (qr_questions response ! i) = q_id (qs ! i)
           \<and> qq_topic (qr_questions response ! i) = ''General''"
    by (simp add: assess_content_def to_quiz_question_def)
qed

theorem missing_topic_is_general_witness:
  "map_of [(''s3'', stored_example)] ''s3'' = Some stored_example
   \<and> unscored stored_example
   \<and> general_question \<in> set (questions_of stored_example)
   \<and> q_topic general_question = None
   \<and> score_quiz [(''s3'', stored_example)] ''s3''
         (Decoded (JObj [(''g1'', JStr ''B''), (''g2'', JStr ''B'')]))
       = (Inr (Assessed general_assessment),
          [(''s3'', stored_example\<lparr>scored := True, score_result := Some general_assessment\<rparr>)])
   \<and> topic_of general_question = ''General''
   \<and> map ta_topic (a_topics_assessed general_assessment) = [''Unions'', ''General'']
   \<and> r_questions (decode_view view_example) = Some (v_questions view_example)
   \<and> q_topic (v_questions view_example ! 1) = None
   \<and> (case assess_content True (Inr (decode_view view_example)) of
         Inl status \<Rightarrow> False
       | Inr response \<Rightarrow> qq_topic (qr_questions response ! 1) = ''General'')"
proof -
  have h1: "map_of [(''s3'', stored_example)] ''s3'' = Some stored_example"
    by simp
  have h2: "unscored stored_example"
    by (simp add: unscored_def stored_example_def)
  have h3: "general_question \<in> set (questions_of stored_example)"
    by (simp add: questions_of_def stored_example_def general_question_def)
  have h4: "q_topic general_question = None"
    by (simp add: general_question_def)
  have h5: "score_quiz [(''s3'', stored_example)] ''s3''
         (Decoded (JObj [(''g1'', JStr ''B''), (''g2'', JStr ''B'')]))
       = (Inr (Assessed general_assessment),
          [(''s3'', stored_example\<lparr>scored := True, score_result := Some general_assessment\<rparr>)])"
    by code_simp
  have h6: "r_questions (decode_view view_example) = Some (v_questions view_example)"
    by (simp add: decode_view_def)
  have h7: "(1::nat) < length (v_questions view_example)"
    by (simp add: view_example_def)
  have h8: "q_topic (v_questions view_example ! 1) = None"
    by (simp add: view_example_def)
  have h9: "map ta_topic (a_topics_assessed general_assessment) = [''Unions'', ''General'']"
    by (simp add: general_assessment_def)
  note t = missing_topic_is_general
      [of "[(''s3'', stored_example)]" "''s3''" stored_example general_question
          "Decoded (JObj [(''g1'', JStr ''B''), (''g2'', JStr ''B'')])" general_assessment
          "[(''s3'', stored_example\<lparr>scored := True, score_result := Some general_assessment\<rparr>)]"
          "decode_view view_example" "v_questions view_example" 1]
  from t h1 h2 h3 h4 h5 have g: "topic_of general_question = ''General''"
    by blast
  from t h6 h7 h8 obtain response where
    "assess_content True (Inr (decode_view view_example)) = Inr response"
    and "qq_topic (qr_questions response ! 1) = ''General''"
    by blast
  then have r: "(case assess_content True (Inr (decode_view view_example)) of
         Inl status \<Rightarrow> False
       | Inr response \<Rightarrow> qq_topic (qr_questions response ! 1) = ''General'')"
    by simp
  from h1 h2 h3 h4 h5 g h9 h6 h8 r show ?thesis
    by blast
qed

end
